theory Spec2Isabelle
  imports Complex_Main
begin

section \<open>Data model of cmd/sph/main.go\<close>

text \<open>
  The program computes on Go's \<^verbatim>\<open>float32\<close> and \<^verbatim>\<open>float64\<close>. This development reads every
  floating-point value as the real number it denotes and every floating-point operation as
  the exact operation on reals: conversions between the two widths are the identity,
  \<^verbatim>\<open>math.Pow\<close> with a literal natural exponent is the power, \<^verbatim>\<open>math.Sqrt\<close> is the square root
  and \<^verbatim>\<open>math.Pi\<close> is \<open>pi\<close>. Rounding, overflow, infinities and NaN are outside the model.
  Go's \<^verbatim>\<open>int\<close> is read as an unbounded integer.
\<close>

datatype Vector2 = Vector2 (X: real) (Y: real)

record Particle =
  pos :: Vector2
  vel :: Vector2
  density :: real
  pressure :: real

record Grid =
  cellSize :: real
  cells :: "int \<times> int \<Rightarrow> nat list option"

record SPHSim =
  particles :: "Particle list"
  grid :: Grid

subsection \<open>Configurable parameters\<close>

definition particleCount :: nat where "particleCount = 1000"
definition restDensity :: real where "restDensity = 1000"
definition gasConstant :: real where "gasConstant = 50"
definition viscosity :: real where "viscosity = 250"
definition h :: real where "h = 16"
definition mass :: real where "mass = 200"
definition timeStep :: real where "timeStep = 0.0015"
definition gravity :: real where "gravity = 3000"
definition windowWidth :: real where "windowWidth = 800"
definition windowHeight :: real where "windowHeight = 400"

subsection \<open>Vector operations of the raylib binding\<close>

text \<open>
  The vector helpers belong to the raylib binding the program imports; they are rendered
  here by what that library computes: componentwise sum and difference, scaling by a
  scalar, the Euclidean length, and normalisation, which leaves a vector of length zero
  as it is.
\<close>

definition Vector2Add :: "Vector2 \<Rightarrow> Vector2 \<Rightarrow> Vector2" where
  "Vector2Add v1 v2 = Vector2 (X v1 + X v2) (Y v1 + Y v2)"

definition Vector2Subtract :: "Vector2 \<Rightarrow> Vector2 \<Rightarrow> Vector2" where
  "Vector2Subtract v1 v2 = Vector2 (X v1 - X v2) (Y v1 - Y v2)"

definition Vector2Scale :: "Vector2 \<Rightarrow> real \<Rightarrow> Vector2" where
  "Vector2Scale v s = Vector2 (X v * s) (Y v * s)"

definition Vector2Length :: "Vector2 \<Rightarrow> real" where
  "Vector2Length v = sqrt (X v * X v + Y v * Y v)"

definition Vector2Normalize :: "Vector2 \<Rightarrow> Vector2" where
  "Vector2Normalize v =
     (let l = Vector2Length v in if l > 0 then Vector2Scale v (1 / l) else v)"

subsection \<open>Kernel functions\<close>

definition poly6 :: "real \<Rightarrow> real \<Rightarrow> real" where
  "poly6 r hr =
     (if r \<ge> 0 \<and> r \<le> hr
      then (315 / (64 * pi * hr ^ 9)) * (hr * hr - r * r) ^ 3
      else 0)"

definition spikyGrad :: "Vector2 \<Rightarrow> real \<Rightarrow> real \<Rightarrow> Vector2" where
  "spikyGrad rij r hr =
     (if r > 0 \<and> r \<le> hr
      then (let m = - 45 / (pi * hr ^ 6) * (hr - r) ^ 2 in Vector2Scale rij (m / r))
      else Vector2 0 0)"

definition viscLaplacian :: "real \<Rightarrow> real \<Rightarrow> real" where
  "viscLaplacian r hr =
     (if r \<ge> 0 \<and> r \<le> hr then 45 / (pi * hr ^ 6) * (hr - r) else 0)"

subsection \<open>Grid calculations\<close>

text \<open>Go's conversion \<^verbatim>\<open>int(x)\<close> of a floating-point value drops the fraction: it rounds
  towards zero.\<close>

definition go_int :: "real \<Rightarrow> int" where
  "go_int x = (if x \<ge> 0 then \<lfloor>x\<rfloor> else \<lceil>x\<rceil>)"

text \<open>Reading a key that the map does not hold gives the nil slice.\<close>

definition bucket :: "Grid \<Rightarrow> int \<times> int \<Rightarrow> nat list" where
  "bucket g k = (case cells g k of None \<Rightarrow> [] | Some ids \<Rightarrow> ids)"

definition Clear :: "Grid \<Rightarrow> Grid" where
  "Clear g = g\<lparr>cells := (\<lambda>k. case cells g k of None \<Rightarrow> None | Some ids \<Rightarrow> Some [])\<rparr>"

text \<open>The cell key of a position; \<^verbatim>\<open>Insert\<close> and \<^verbatim>\<open>Nearby\<close> both compute it with this
  expression.\<close>

definition cellKey :: "Grid \<Rightarrow> Particle \<Rightarrow> int \<times> int" where
  "cellKey g p = (go_int (X (pos p) / cellSize g), go_int (Y (pos p) / cellSize g))"

definition Insert_step :: "Particle list \<Rightarrow> nat \<Rightarrow> Grid \<Rightarrow> Grid" where
  "Insert_step ps i g =
     (let p = ps ! i; key = cellKey g p
      in g\<lparr>cells := (cells g)(key \<mapsto> bucket g key @ [i])\<rparr>)"

definition Insert :: "Grid \<Rightarrow> Particle list \<Rightarrow> Grid" where
  "Insert g ps = fold (Insert_step ps) [0..<length ps] (Clear g)"

definition Nearby :: "Grid \<Rightarrow> Particle \<Rightarrow> nat list" where
  "Nearby g p =
     (let key = cellKey g p
      in concat (map (\<lambda>dy. concat (map (\<lambda>dx. bucket g (fst key + dx, snd key + dy))
                                          [-1, 0, 1]))
                     [-1, 0, 1]))"

subsection \<open>SPH core\<close>

text \<open>
  Each pass walks the particle slice in index order and writes through a pointer into
  it; the passes are folds over the indices that carry the slice. The particle indices
  come out of the grid, which \<^verbatim>\<open>Step\<close> has just rebuilt from the same slice.
\<close>

definition distance :: "Particle list \<Rightarrow> nat \<Rightarrow> nat \<Rightarrow> real" where
  "distance ps i j = Vector2Length (Vector2Subtract (pos (ps ! i)) (pos (ps ! j)))"

definition density_body :: "Particle list \<Rightarrow> nat \<Rightarrow> nat \<Rightarrow> real \<Rightarrow> real" where
  "density_body ps i j d =
     (let rv = Vector2Subtract (pos (ps ! i)) (pos (ps ! j));
          r = Vector2Length rv
      in if r < h then d + mass * poly6 r h else d)"

text \<open>The inner loop of \<^verbatim>\<open>computeDensities\<close>: the density field of particle \<open>i\<close> is set to
  zero and grows by one term for each index that \<^verbatim>\<open>Nearby\<close> returns. The loop reads
  positions only, so accumulating in the field or in a local is the same.\<close>

definition density_of :: "Grid \<Rightarrow> Particle list \<Rightarrow> nat \<Rightarrow> real" where
  "density_of g ps i = fold (density_body ps i) (Nearby g (ps ! i)) 0"

definition computeDensities_step :: "Grid \<Rightarrow> nat \<Rightarrow> Particle list \<Rightarrow> Particle list" where
  "computeDensities_step g i ps =
     (let d = density_of g ps i
      in ps[i := (ps ! i)\<lparr>density := d, pressure := gasConstant * (d - restDensity)\<rparr>])"

definition computeDensities :: "Grid \<Rightarrow> Particle list \<Rightarrow> Particle list" where
  "computeDensities g ps = fold (computeDensities_step g) [0..<length ps] ps"

definition force_body :: "Particle list \<Rightarrow> nat \<Rightarrow> nat \<Rightarrow> Vector2 \<Rightarrow> Vector2" where
  "force_body ps i j acc =
     (if i = j then acc
      else
        let rij = Vector2Subtract (pos (ps ! i)) (pos (ps ! j));
            r = Vector2Length rij
        in if r \<le> 0 \<or> r > h then acc
           else
             let pressureTerm =
                   - mass * (pressure (ps ! i) + pressure (ps ! j)) / (2 * density (ps ! j));
                 grad = spikyGrad rij r h;
                 acc1 = Vector2Add acc (Vector2Scale grad (pressureTerm / density (ps ! j)));
                 dv = Vector2Subtract (vel (ps ! j)) (vel (ps ! i));
                 visc = viscosity * viscLaplacian r h
             in Vector2Add acc1 (Vector2Scale dv (visc / density (ps ! j))))"

definition acceleration :: "Grid \<Rightarrow> Particle list \<Rightarrow> nat \<Rightarrow> Vector2" where
  "acceleration g ps i = fold (force_body ps i) (Nearby g (ps ! i)) (Vector2 0 gravity)"

definition computeForces_step :: "Grid \<Rightarrow> nat \<Rightarrow> Particle list \<Rightarrow> Particle list" where
  "computeForces_step g i ps =
     (let acc = acceleration g ps i
      in ps[i := (ps ! i)\<lparr>vel := Vector2Add (vel (ps ! i)) (Vector2Scale acc timeStep)\<rparr>])"

definition computeForces :: "Grid \<Rightarrow> Particle list \<Rightarrow> Particle list" where
  "computeForces g ps = fold (computeForces_step g) [0..<length ps] ps"

text \<open>
  The body of the loop of \<^verbatim>\<open>integrate\<close> in its four stages: the position update, the four
  wall tests in the order of the source, the speed clamp and the drag. Each iteration
  touches its own particle only.
\<close>

definition advance :: "Particle \<Rightarrow> Particle" where
  "advance p = p\<lparr>pos := Vector2Add (pos p) (Vector2Scale (vel p) timeStep)\<rparr>"

definition wallCollisions :: "Particle \<Rightarrow> Particle" where
  "wallCollisions p0 =
     (let p1 = (if X (pos p0) < 5
                then p0\<lparr>pos := Vector2 5 (Y (pos p0)),
                        vel := Vector2 (X (vel p0) * (- 0.5)) (Y (vel p0))\<rparr>
                else p0);
          p2 = (if X (pos p1) > windowWidth - 5
                then p1\<lparr>pos := Vector2 (windowWidth - 5) (Y (pos p1)),
                        vel := Vector2 (X (vel p1) * (- 0.5)) (Y (vel p1))\<rparr>
                else p1);
          p3 = (if Y (pos p2) < 5
                then p2\<lparr>pos := Vector2 (X (pos p2)) 5,
                        vel := Vector2 (X (vel p2)) (Y (vel p2) * (- 0.5))\<rparr>
                else p2);
          p4 = (if Y (pos p3) > windowHeight - 5
                then p3\<lparr>pos := Vector2 (X (pos p3)) (windowHeight - 5),
                        vel := Vector2 (X (vel p3)) (Y (vel p3) * (- 0.5))\<rparr>
                else p3)
      in p4)"

definition clampVelocity :: "Particle \<Rightarrow> Particle" where
  "clampVelocity p =
     (let speed = Vector2Length (vel p)
      in if speed > 1000 then p\<lparr>vel := Vector2Scale (Vector2Normalize (vel p)) 1000\<rparr>
         else p)"

definition applyDrag :: "Particle \<Rightarrow> Particle" where
  "applyDrag p = (let drag = 0.995 in p\<lparr>vel := Vector2Scale (vel p) drag\<rparr>)"

definition integrate_particle :: "Particle \<Rightarrow> Particle" where
  "integrate_particle p = applyDrag (clampVelocity (wallCollisions (advance p)))"

definition integrate :: "Particle list \<Rightarrow> Particle list" where
  "integrate ps = map integrate_particle ps"

definition TotalKineticEnergy :: "SPHSim \<Rightarrow> real" where
  "TotalKineticEnergy s =
     fold (\<lambda>p total. let v = Vector2Length (vel p) in total + 0.5 * mass * (v * v))
          (particles s) 0"

definition Step :: "SPHSim \<Rightarrow> SPHSim" where
  "Step s =
     (let g = Insert (grid s) (particles s);
          ps1 = computeDensities g (particles s);
          ps2 = computeForces g ps1;
          ps3 = integrate ps2
      in \<lparr>particles = ps3, grid = g\<rparr>)"

subsection \<open>The divisors of a step\<close>

text \<open>
  Every function of the program that divides gets a companion that lists the divisors of
  the divisions it carries out, on the same arguments, under the same tests and in the
  same order: the two divisions by the cell size in a cell key; the constant of each
  kernel, and the distance \<open>r\<close> in \<^verbatim>\<open>spikyGrad\<close>; the length in \<^verbatim>\<open>Vector2Normalize\<close>; in the force
  loop \<open>2 * pj.density\<close> and then \<open>pj.density\<close> twice, around the kernels it calls. The
  companions of the passes walk the slice as the passes do, each particle on the slice as
  the pass holds it at that moment.
\<close>

definition cellKey_divisors :: "Grid \<Rightarrow> Particle \<Rightarrow> real list" where
  "cellKey_divisors g p = [cellSize g, cellSize g]"

definition poly6_divisors :: "real \<Rightarrow> real \<Rightarrow> real list" where
  "poly6_divisors r hr = (if r \<ge> 0 \<and> r \<le> hr then [64 * pi * hr ^ 9] else [])"

definition spikyGrad_divisors :: "real \<Rightarrow> real \<Rightarrow> real list" where
  "spikyGrad_divisors r hr = (if r > 0 \<and> r \<le> hr then [pi * hr ^ 6, r] else [])"

definition viscLaplacian_divisors :: "real \<Rightarrow> real \<Rightarrow> real list" where
  "viscLaplacian_divisors r hr = (if r \<ge> 0 \<and> r \<le> hr then [pi * hr ^ 6] else [])"

definition Vector2Normalize_divisors :: "Vector2 \<Rightarrow> real list" where
  "Vector2Normalize_divisors v = (let l = Vector2Length v in if l > 0 then [l] else [])"

definition Insert_divisors :: "Grid \<Rightarrow> Particle list \<Rightarrow> real list" where
  "Insert_divisors g ps =
     concat (map (\<lambda>i. cellKey_divisors (fold (Insert_step ps) [0..<i] (Clear g)) (ps ! i))
                 [0..<length ps])"

definition density_body_divisors :: "Particle list \<Rightarrow> nat \<Rightarrow> nat \<Rightarrow> real list" where
  "density_body_divisors ps i j =
     (let rv = Vector2Subtract (pos (ps ! i)) (pos (ps ! j));
          r = Vector2Length rv
      in if r < h then poly6_divisors r h else [])"

definition density_of_divisors :: "Grid \<Rightarrow> Particle list \<Rightarrow> nat \<Rightarrow> real list" where
  "density_of_divisors g ps i =
     cellKey_divisors g (ps ! i) @ concat (map (density_body_divisors ps i) (Nearby g (ps ! i)))"

definition computeDensities_divisors :: "Grid \<Rightarrow> Particle list \<Rightarrow> real list" where
  "computeDensities_divisors g ps =
     concat (map (\<lambda>i. density_of_divisors g (fold (computeDensities_step g) [0..<i] ps) i)
                 [0..<length ps])"

definition force_body_divisors :: "Particle list \<Rightarrow> nat \<Rightarrow> nat \<Rightarrow> real list" where
  "force_body_divisors ps i j =
     (if i = j then []
      else
        let rij = Vector2Subtract (pos (ps ! i)) (pos (ps ! j));
            r = Vector2Length rij
        in if r \<le> 0 \<or> r > h then []
           else [2 * density (ps ! j)] @ spikyGrad_divisors r h @ [density (ps ! j)]
                @ viscLaplacian_divisors r h @ [density (ps ! j)])"

definition acceleration_divisors :: "Grid \<Rightarrow> Particle list \<Rightarrow> nat \<Rightarrow> real list" where
  "acceleration_divisors g ps i =
     cellKey_divisors g (ps ! i) @ concat (map (force_body_divisors ps i) (Nearby g (ps ! i)))"

definition computeForces_divisors :: "Grid \<Rightarrow> Particle list \<Rightarrow> real list" where
  "computeForces_divisors g ps =
     concat (map (\<lambda>i. acceleration_divisors g (fold (computeForces_step g) [0..<i] ps) i)
                 [0..<length ps])"

definition clampVelocity_divisors :: "Particle \<Rightarrow> real list" where
  "clampVelocity_divisors p =
     (let speed = Vector2Length (vel p)
      in if speed > 1000 then Vector2Normalize_divisors (vel p) else [])"

definition integrate_divisors :: "Particle list \<Rightarrow> real list" where
  "integrate_divisors ps =
     concat (map (\<lambda>p. clampVelocity_divisors (wallCollisions (advance p))) ps)"

definition Step_divisors :: "SPHSim \<Rightarrow> real list" where
  "Step_divisors s =
     (let g = Insert (grid s) (particles s);
          ps1 = computeDensities g (particles s);
          ps2 = computeForces g ps1
      in Insert_divisors (grid s) (particles s) @ computeDensities_divisors g (particles s)
         @ computeForces_divisors g ps1 @ integrate_divisors ps2)"

subsection \<open>The force sum in the words of the specification\<close>

text \<open>The terms that the specification gives for the acceleration of particle \<open>i\<close>, written
  from its sentences, to be compared with the loop of \<^verbatim>\<open>computeForces\<close>. The viscosity term
  takes the two velocities as arguments, so that it can be said which ones the loop reads.\<close>

definition spec_pressureTerm :: "Particle list \<Rightarrow> nat \<Rightarrow> nat \<Rightarrow> real" where
  "spec_pressureTerm ps i j =
     - mass * (pressure (ps ! i) + pressure (ps ! j)) / (2 * density (ps ! j))"

definition spec_pressure_contribution :: "Particle list \<Rightarrow> nat \<Rightarrow> nat \<Rightarrow> Vector2" where
  "spec_pressure_contribution ps i j =
     Vector2Scale
       (spikyGrad (Vector2Subtract (pos (ps ! i)) (pos (ps ! j))) (distance ps i j) h)
       (spec_pressureTerm ps i j / density (ps ! j))"

definition spec_viscosity_contribution ::
  "Particle list \<Rightarrow> nat \<Rightarrow> nat \<Rightarrow> Vector2 \<Rightarrow> Vector2 \<Rightarrow> Vector2" where
  "spec_viscosity_contribution ps i j vel_i vel_j =
     Vector2Scale (Vector2Subtract vel_j vel_i)
       (viscosity * viscLaplacian (distance ps i j) h / density (ps ! j))"

definition spec_neighbors :: "Grid \<Rightarrow> Particle list \<Rightarrow> nat \<Rightarrow> nat list" where
  "spec_neighbors g ps i =
     filter (\<lambda>j. j \<noteq> i \<and> 0 < distance ps i j \<and> distance ps i j \<le> h) (Nearby g (ps ! i))"

definition spec_acceleration ::
  "Grid \<Rightarrow> Particle list \<Rightarrow> nat \<Rightarrow> (nat \<Rightarrow> Vector2) \<Rightarrow> Vector2" where
  "spec_acceleration g ps i velocity =
     foldl Vector2Add (Vector2 0 gravity)
       (map (\<lambda>j. Vector2Add (spec_pressure_contribution ps i j)
                             (spec_viscosity_contribution ps i j (velocity i) (velocity j)))
            (spec_neighbors g ps i))"

subsection \<open>Example states\<close>

text \<open>One particle alone at \<open>(200, 50)\<close> at rest, in a simulation whose grid is the empty map
  with cell size \<open>h\<close> that \<^verbatim>\<open>NewSPHSim\<close> makes; the first two particles of the lattice of
  \<^verbatim>\<open>NewSPHSim\<close>, ten units apart, with the grid rebuilt from them and their state after
  the density pass; and three particles about to cross the right wall, the left and the
  bottom wall together, and the top wall.\<close>

definition new_grid :: Grid where
  "new_grid = \<lparr>cellSize = h, cells = Map.empty\<rparr>"

definition single_particle :: Particle where
  "single_particle = \<lparr>pos = Vector2 200 50, vel = Vector2 0 0, density = 0, pressure = 0\<rparr>"

definition single_sim :: SPHSim where
  "single_sim = \<lparr>particles = [single_particle], grid = new_grid\<rparr>"

definition pair_particles :: "Particle list" where
  "pair_particles =
     [\<lparr>pos = Vector2 200 50, vel = Vector2 0 0, density = 0, pressure = 0\<rparr>,
      \<lparr>pos = Vector2 210 50, vel = Vector2 0 0, density = 0, pressure = 0\<rparr>]"

definition pair_grid :: Grid where
  "pair_grid = Insert new_grid pair_particles"

definition pair_densities :: "Particle list" where
  "pair_densities = computeDensities pair_grid pair_particles"

definition wall_particle :: Particle where
  "wall_particle = \<lparr>pos = Vector2 794.9 50, vel = Vector2 100 0, density = 0, pressure = 0\<rparr>"

definition corner_particle :: Particle where
  "corner_particle =
     \<lparr>pos = Vector2 5.05 394.9, vel = Vector2 (- 100) 100, density = 0, pressure = 0\<rparr>"

definition top_particle :: Particle where
  "top_particle = \<lparr>pos = Vector2 400 5.05, vel = Vector2 0 (- 100), density = 0, pressure = 0\<rparr>"

definition wall_particles :: "Particle list" where
  "wall_particles = [wall_particle, corner_particle, top_particle]"

section \<open>Properties\<close>

subsection \<open>Vectors and kernels\<close>

lemma Vector2Length_Scale: "Vector2Length (Vector2Scale v s) = \<bar>s\<bar> * Vector2Length v"
proof -
  have "X v * s * (X v * s) + Y v * s * (Y v * s) = s\<^sup>2 * (X v * X v + Y v * Y v)"
    by (simp add: power2_eq_square algebra_simps)
  then show ?thesis
    by (simp add: Vector2Length_def Vector2Scale_def real_sqrt_mult)
qed

lemma Vector2Length_nonneg: "0 \<le> Vector2Length v"
  by (simp add: Vector2Length_def)

lemma abs_X_le_Length: "\<bar>X v\<bar> \<le> Vector2Length v"
  unfolding Vector2Length_def
  by (metis abs_ge_zero real_sqrt_abs2 real_sqrt_le_iff le_add_same_cancel1 zero_le_square)

lemma abs_Y_le_Length: "\<bar>Y v\<bar> \<le> Vector2Length v"
  unfolding Vector2Length_def
  by (metis abs_ge_zero real_sqrt_abs2 real_sqrt_le_iff le_add_same_cancel2 zero_le_square)

lemma poly6_nonneg: "0 < hr \<Longrightarrow> 0 \<le> poly6 r hr"
proof -
  assume hr: "0 < hr"
  have "0 \<le> hr * hr - r * r" if "0 \<le> r" "r \<le> hr"
    using that by (simp add: mult_mono)
  then show ?thesis using hr by (simp add: poly6_def)
qed

lemma poly6_outside: "hr \<le> r \<Longrightarrow> poly6 r hr = 0"
  by (cases "r = hr") (simp_all add: poly6_def)

lemma sqrt_square_eq: "0 \<le> c \<Longrightarrow> x = c * c \<Longrightarrow> sqrt x = c"
  by (simp add: real_sqrt_mult)

lemma Vector2Length_3_4: "Vector2Length (Vector2 3 4) = 5"
  by (simp add: Vector2Length_def sqrt_square_eq [of 5])

lemma Vector2Length_30_40: "Vector2Length (Vector2 30 40) = 50"
  by (simp add: Vector2Length_def sqrt_square_eq [of 50])

lemma Vector2Length_zero: "Vector2Length (Vector2 0 0) = 0"
  by (simp add: Vector2Length_def)

text \<open>
  C8, as the specification states it: for every \<open>h > 0\<close>, \<open>poly6 r h\<close> is \<open>0\<close> for all \<open>r > h\<close>
  and \<open>poly6 0 h\<close> is \<open>315 * h\<^sup>6 / (64 * pi)\<close>. The second half fails: at \<open>h = 16\<close>, the
  smoothing radius of the program, the kernel gives \<open>315 / (64 * pi * 16\<^sup>3)\<close>.
\<close>

theorem poly6_zero_counterexample: "poly6 0 16 \<noteq> 315 * 16 ^ 6 / (64 * pi)"
  by (simp add: poly6_def field_simps)

text \<open>
  C8, amended: for every \<open>h > 0\<close>, \<open>poly6 r h\<close> is \<open>0\<close> for all \<open>r > h\<close>, and \<open>poly6 0 h\<close> is
  \<open>315 / (64 * pi * h\<^sup>3)\<close>, the value of the closed form \<open>315 / (64 * pi * h\<^sup>9) * (h\<^sup>2 - r\<^sup>2)\<^sup>3\<close>
  at \<open>r = 0\<close>.
\<close>

theorem poly6_closed_form:
  assumes "0 < hr"
  shows "(r > hr \<longrightarrow> poly6 r hr = 0) \<and> poly6 0 hr = 315 / (64 * pi * hr ^ 3)"
proof -
  have "hr ^ 9 = hr ^ 3 * (hr * hr) ^ 3"
    by (simp add: power_mult_distrib flip: power_add)
  then show ?thesis using assms by (simp add: poly6_def)
qed

theorem poly6_closed_form_witness:
  "(0::real) < 16 \<and> (17::real) > 16 \<and> poly6 17 16 = 0
   \<and> poly6 0 16 = 315 / (64 * pi * 16 ^ 3)"
  using poly6_closed_form [of 16 17] by simp

text \<open>
  C9: for every \<open>h > 0\<close> and displacement \<open>d\<close> of length \<open>r\<close>, \<open>spikyGrad d r h\<close> is the zero
  vector when \<open>r = 0\<close> or \<open>r > h\<close>; when \<open>0 < r \<le> h\<close> its length is
  \<open>45 / (pi * h\<^sup>6) * (h - r)\<^sup>2\<close>, whatever the direction of \<open>d\<close>, and it is the unit vector
  \<open>d / r\<close> scaled by the negative of that length, so it points against the displacement.
\<close>

theorem spikyGrad_spec:
  assumes "0 < hr" and "Vector2Length d = r"
  shows "(r = 0 \<or> r > hr \<longrightarrow> spikyGrad d r hr = Vector2 0 0)
       \<and> (0 < r \<and> r \<le> hr \<longrightarrow>
            Vector2Length (spikyGrad d r hr) = 45 / (pi * hr ^ 6) * (hr - r) ^ 2
          \<and> spikyGrad d r hr
              = Vector2Scale (Vector2Scale d (1 / r)) (- (45 / (pi * hr ^ 6) * (hr - r) ^ 2))
          \<and> Vector2Length (Vector2Scale d (1 / r)) = 1)"
proof (intro conjI impI)
  assume "r = 0 \<or> r > hr"
  then show "spikyGrad d r hr = Vector2 0 0" by (auto simp: spikyGrad_def)
next
  assume r: "0 < r \<and> r \<le> hr"
  have m: "0 \<le> 45 / (pi * hr ^ 6) * (hr - r) ^ 2" using assms by simp
  show "Vector2Length (spikyGrad d r hr) = 45 / (pi * hr ^ 6) * (hr - r) ^ 2"
    using r assms m by (simp add: spikyGrad_def Vector2Length_Scale abs_mult)
  show "spikyGrad d r hr
              = Vector2Scale (Vector2Scale d (1 / r)) (- (45 / (pi * hr ^ 6) * (hr - r) ^ 2))"
    using r by (simp add: spikyGrad_def Vector2Scale_def)
  show "Vector2Length (Vector2Scale d (1 / r)) = 1"
    using r assms by (simp add: Vector2Length_Scale)
qed

theorem spikyGrad_spec_witness:
  "(0::real) < 16 \<and> Vector2Length (Vector2 3 4) = 5 \<and> (0::real) < 5 \<and> (5::real) \<le> 16
   \<and> Vector2Length (spikyGrad (Vector2 3 4) 5 16) = 45 / (pi * 16 ^ 6) * (16 - 5) ^ 2
   \<and> spikyGrad (Vector2 3 4) 5 16
        = Vector2Scale (Vector2Scale (Vector2 3 4) (1 / 5))
            (- (45 / (pi * 16 ^ 6) * (16 - 5) ^ 2))
   \<and> Vector2Length (Vector2 0 0) = 0 \<and> spikyGrad (Vector2 0 0) 0 16 = Vector2 0 0
   \<and> Vector2Length (Vector2 30 40) = 50 \<and> (50::real) > 16
   \<and> spikyGrad (Vector2 30 40) 50 16 = Vector2 0 0"
proof -
  have h16: "(0::real) < 16" by simp
  have inside: "(0::real) < 5 \<and> (5::real) \<le> 16" by simp
  have outside: "(50::real) = 0 \<or> (50::real) > 16" by simp
  note a = spikyGrad_spec [OF h16 Vector2Length_3_4, THEN conjunct2, THEN mp, OF inside]
  note b = spikyGrad_spec [OF h16 Vector2Length_zero, THEN conjunct1, THEN mp, OF disjI1,
      OF refl]
  note c = spikyGrad_spec [OF h16 Vector2Length_30_40, THEN conjunct1, THEN mp, OF outside]
  have gt: "(50::real) > 16" by simp
  show ?thesis
    by (intro conjI h16 Vector2Length_3_4 inside [THEN conjunct1] inside [THEN conjunct2]
        a [THEN conjunct1] a [THEN conjunct2, THEN conjunct1] Vector2Length_zero b
        Vector2Length_30_40 gt c)
qed

subsection \<open>The grid after a rebuild\<close>

lemma go_int_close:
  assumes "\<bar>a - b\<bar> \<le> 1"
  shows "\<bar>go_int a - go_int b\<bar> \<le> 1"
  using assms unfolding go_int_def by (auto split: if_splits) linarith+

lemma cellSize_Clear [simp]: "cellSize (Clear g) = cellSize g"
  by (simp add: Clear_def)

lemma bucket_Clear [simp]: "bucket (Clear g) k = []"
  by (simp add: Clear_def bucket_def split: option.splits)

lemma cellKey_cong: "cellSize g = cellSize g' \<Longrightarrow> cellKey g p = cellKey g' p"
  by (simp add: cellKey_def)

lemma cellSize_Insert_step [simp]: "cellSize (Insert_step ps i g) = cellSize g"
  by (simp add: Insert_step_def Let_def)

lemma bucket_Insert_step:
  "bucket (Insert_step ps i g) k =
     (if cellKey g (ps ! i) = k then bucket g k @ [i] else bucket g k)"
  by (auto simp: Insert_step_def Let_def bucket_def)

lemma cellSize_fold_Insert [simp]:
  "cellSize (fold (Insert_step ps) [0..<n] g) = cellSize g"
  by (induction n) simp_all

lemma bucket_fold_Insert:
  "bucket (fold (Insert_step ps) [0..<n] g) k =
     bucket g k @ filter (\<lambda>i. cellKey g (ps ! i) = k) [0..<n]"
proof (induction n)
  case 0
  show ?case by simp
next
  case (Suc n)
  have "cellKey (fold (Insert_step ps) [0..<n] g) (ps ! n) = cellKey g (ps ! n)"
    by (rule cellKey_cong) simp
  with Suc show ?case by (simp add: bucket_Insert_step)
qed

lemma cellSize_Insert [simp]: "cellSize (Insert g ps) = cellSize g"
  by (simp add: Insert_def)

lemma cellKey_Insert [simp]: "cellKey (Insert g ps) p = cellKey g p"
  by (rule cellKey_cong) simp

text \<open>After a rebuild a bucket holds, in ascending order, exactly the indices of the
  particles whose key it is: every index is in one bucket, once.\<close>

lemma bucket_Insert:
  "bucket (Insert g ps) k = filter (\<lambda>i. cellKey g (ps ! i) = k) [0..<length ps]"
proof -
  have "cellKey (Clear g) = cellKey g" by (rule ext, rule cellKey_cong) simp
  then show ?thesis by (simp add: Insert_def bucket_fold_Insert)
qed

lemma set_Nearby:
  "set (Nearby g p) =
     {j. \<exists>dx\<in>{-1, 0, 1}. \<exists>dy\<in>{-1, 0, 1}.
           j \<in> set (bucket g (fst (cellKey g p) + dx, snd (cellKey g p) + dy))}"
  by (auto simp: Nearby_def Let_def)

lemma Nearby_Insert_iff:
  "j \<in> set (Nearby (Insert g ps) p) \<longleftrightarrow>
     j < length ps
     \<and> \<bar>fst (cellKey g (ps ! j)) - fst (cellKey g p)\<bar> \<le> 1
     \<and> \<bar>snd (cellKey g (ps ! j)) - snd (cellKey g p)\<bar> \<le> 1"
proof -
  obtain a b where kp: "cellKey g p = (a, b)" by (cases "cellKey g p")
  obtain c d where kj: "cellKey g (ps ! j) = (c, d)" by (cases "cellKey g (ps ! j)")
  have "(\<exists>dx\<in>{-1, 0, 1::int}. \<exists>dy\<in>{-1, 0, 1::int}. (c, d) = (a + dx, b + dy))
        \<longleftrightarrow> \<bar>c - a\<bar> \<le> 1 \<and> \<bar>d - b\<bar> \<le> 1"
    by auto
  then show ?thesis
    by (simp add: set_Nearby bucket_Insert kp kj) blast
qed

text \<open>So the indices that \<^verbatim>\<open>Nearby\<close> returns within a step are indices of the slice, each
  at most once, and the loops that read \<^verbatim>\<open>s.particles[j]\<close> stay inside it.\<close>

lemma Nearby_Insert_in_range:
  "j \<in> set (Nearby (Insert g ps) p) \<Longrightarrow> j < length ps"
  by (simp add: Nearby_Insert_iff)

lemma distinct_Nearby_Insert: "distinct (Nearby (Insert g ps) p)"
proof -
  obtain a b where kp: "cellKey g p = (a, b)" by (cases "cellKey g p")
  show ?thesis by (auto simp: Nearby_def Let_def bucket_Insert kp)
qed

lemma self_in_Nearby_Insert:
  "i < length ps \<Longrightarrow> i \<in> set (Nearby (Insert g ps) (ps ! i))"
  by (simp add: Nearby_Insert_iff)

lemma Nearby_cong: "pos p = pos q \<Longrightarrow> Nearby g p = Nearby g q"
  by (simp add: Nearby_def cellKey_def)

lemma sqrt_100: "sqrt 100 = 10"
  by (simp add: sqrt_square_eq [of 10])

lemma upt_0_2: "[0..<2] = [0, Suc 0]"
  by (simp add: numeral_2_eq_2)

lemma pair_length [simp]: "length pair_particles = 2"
  by (simp add: pair_particles_def)

lemma pair_distance_0_1: "distance pair_particles 0 (Suc 0) = 10"
  by (simp add: distance_def pair_particles_def Vector2Subtract_def Vector2Length_def sqrt_100)

lemma pair_distance_1_0: "distance pair_particles (Suc 0) 0 = 10"
  by (simp add: distance_def pair_particles_def Vector2Subtract_def Vector2Length_def sqrt_100)

lemma pair_cellKey:
  "cellKey new_grid (pair_particles ! 0) = (12, 3)"
  "cellKey new_grid (pair_particles ! Suc 0) = (13, 3)"
  by (simp_all add: cellKey_def new_grid_def pair_particles_def h_def go_int_def)

lemma pair_Nearby:
  "Nearby (Insert new_grid pair_particles) (pair_particles ! 0) = [0, Suc 0]"
  "Nearby (Insert new_grid pair_particles) (pair_particles ! Suc 0) = [0, Suc 0]"
  by (simp_all add: Nearby_def bucket_Insert pair_cellKey upt_0_2)

lemma cellKey_close:
  assumes "0 < cellSize g"
      and "Vector2Length (Vector2Subtract (pos p) (pos q)) \<le> cellSize g"
  shows "\<bar>fst (cellKey g q) - fst (cellKey g p)\<bar> \<le> 1
       \<and> \<bar>snd (cellKey g q) - snd (cellKey g p)\<bar> \<le> 1"
proof -
  let ?c = "cellSize g"
  have "\<bar>X (pos p) - X (pos q)\<bar> \<le> ?c"
    using abs_X_le_Length [of "Vector2Subtract (pos p) (pos q)"] assms(2)
    by (simp add: Vector2Subtract_def)
  then have "\<bar>X (pos q) / ?c - X (pos p) / ?c\<bar> \<le> 1"
    using assms(1) by (simp add: abs_minus_commute flip: diff_divide_distrib)
  then have x: "\<bar>go_int (X (pos q) / ?c) - go_int (X (pos p) / ?c)\<bar> \<le> 1"
    by (rule go_int_close)
  have "\<bar>Y (pos p) - Y (pos q)\<bar> \<le> ?c"
    using abs_Y_le_Length [of "Vector2Subtract (pos p) (pos q)"] assms(2)
    by (simp add: Vector2Subtract_def)
  then have "\<bar>Y (pos q) / ?c - Y (pos p) / ?c\<bar> \<le> 1"
    using assms(1) by (simp add: abs_minus_commute flip: diff_divide_distrib)
  then have y: "\<bar>go_int (Y (pos q) / ?c) - go_int (Y (pos p) / ?c)\<bar> \<le> 1"
    by (rule go_int_close)
  from x y show ?thesis by (simp add: cellKey_def)
qed

text \<open>Two particles no farther apart than the cell size lie in the same or in adjacent
  cells, also where coordinates are negative and the truncation rounds up, so each one is
  in the 3 by 3 block of the other.\<close>

lemma Nearby_Insert_close:
  assumes "0 < cellSize g" and "j < length ps"
      and "distance ps i j \<le> cellSize g"
  shows "j \<in> set (Nearby (Insert g ps) (ps ! i))"
  using cellKey_close [OF assms(1), of "ps ! i" "ps ! j"] assms(2,3)
  by (simp add: Nearby_Insert_iff distance_def)

lemma distance_commute: "distance ps i j = distance ps j i"
proof -
  have "(a - b) * (a - b) = (b - a) * (b - a)" for a b :: real by (simp add: algebra_simps)
  then show ?thesis
    by (simp add: distance_def Vector2Subtract_def Vector2Length_def)
qed

text \<open>
  C7: for any two particles whose distance is at most \<open>h\<close>, after the grid has been rebuilt
  by \<^verbatim>\<open>Insert\<close> with cell size \<open>h\<close> and keys truncated towards zero, at least one of the two
  is among the indices that \<^verbatim>\<open>Nearby\<close> returns for the other.
\<close>

theorem grid_no_false_negatives:
  assumes "cellSize g = h" and "i < length ps" and "j < length ps"
      and "distance ps i j \<le> h"
  shows "j \<in> set (Nearby (Insert g ps) (ps ! i)) \<or> i \<in> set (Nearby (Insert g ps) (ps ! j))"
proof -
  have "0 < cellSize g" using assms(1) by (simp add: h_def)
  then have "j \<in> set (Nearby (Insert g ps) (ps ! i))"
    using assms by (intro Nearby_Insert_close) simp_all
  then show ?thesis ..
qed

theorem grid_no_false_negatives_witness:
  "cellSize new_grid = h \<and> (0::nat) < length pair_particles \<and> (1::nat) < length pair_particles
   \<and> distance pair_particles 0 1 \<le> h
   \<and> (1 \<in> set (Nearby (Insert new_grid pair_particles) (pair_particles ! 0))
      \<or> 0 \<in> set (Nearby (Insert new_grid pair_particles) (pair_particles ! 1)))"
proof -
  have a: "cellSize new_grid = h" by (simp add: new_grid_def)
  have b: "(0::nat) < length pair_particles" "(1::nat) < length pair_particles" by simp_all
  have c: "distance pair_particles 0 1 \<le> h" using pair_distance_0_1 by (simp add: h_def)
  from grid_no_false_negatives [OF a b c] a b c show ?thesis by simp
qed

subsection \<open>The density pass\<close>

lemma nth_update_field:
  "f (ps[i := q] ! j) = f (ps ! j)" if "f q = f (ps ! i)"
proof (cases "i = j \<and> i < length ps")
  case True
  then show ?thesis using that by simp
next
  case False
  then show ?thesis by (cases "i = j") (simp_all add: list_update_beyond)
qed

lemma density_body_cong:
  "\<forall>j. pos (ps' ! j) = pos (ps ! j) \<Longrightarrow> density_body ps' i = density_body ps i"
  by (intro ext) (simp add: density_body_def)

lemma fold_density_body:
  "fold (density_body ps i) js d =
     d + (\<Sum>j\<leftarrow>js. if distance ps i j < h then mass * poly6 (distance ps i j) h else 0)"
  by (induction js arbitrary: d) (simp_all add: density_body_def distance_def Let_def)

lemma length_computeDensities_step [simp]:
  "length (computeDensities_step g i ps) = length ps"
  by (simp add: computeDensities_step_def Let_def)

lemma length_fold_computeDensities [simp]:
  "length (fold (computeDensities_step g) is ps) = length ps"
  by (induction "is" arbitrary: ps) simp_all

lemma pos_computeDensities_step:
  "pos (computeDensities_step g i ps ! j) = pos (ps ! j)"
  by (simp add: computeDensities_step_def Let_def nth_update_field)

lemma vel_computeDensities_step:
  "vel (computeDensities_step g i ps ! j) = vel (ps ! j)"
  by (simp add: computeDensities_step_def Let_def nth_update_field)

lemma pos_fold_computeDensities:
  "pos (fold (computeDensities_step g) is ps ! j) = pos (ps ! j)"
  by (induction "is" arbitrary: ps) (simp_all add: pos_computeDensities_step)

lemma vel_fold_computeDensities:
  "vel (fold (computeDensities_step g) is ps ! j) = vel (ps ! j)"
  by (induction "is" arbitrary: ps) (simp_all add: vel_computeDensities_step)

lemma computeDensities_step_nth:
  "i < length ps \<Longrightarrow>
   computeDensities_step g i ps ! j =
     (if j = i
      then (ps ! i)\<lparr>density := density_of g ps i,
                     pressure := gasConstant * (density_of g ps i - restDensity)\<rparr>
      else ps ! j)"
  by (simp add: computeDensities_step_def Let_def)

lemma density_of_cong:
  assumes "\<forall>j. pos (ps' ! j) = pos (ps ! j)"
  shows "density_of g ps' i = density_of g ps i"
proof -
  have "Nearby g (ps' ! i) = Nearby g (ps ! i)" using assms by (intro Nearby_cong) simp
  then show ?thesis by (simp add: density_of_def density_body_cong [OF assms])
qed

lemma fold_computeDensities_nth:
  assumes "k \<le> length ps"
  shows "fold (computeDensities_step g) [0..<k] ps ! j =
     (if j < k
      then (ps ! j)\<lparr>density := density_of g ps j,
                     pressure := gasConstant * (density_of g ps j - restDensity)\<rparr>
      else ps ! j)"
  using assms
proof (induction k arbitrary: j)
  case 0
  show ?case by simp
next
  case (Suc k)
  let ?s = "fold (computeDensities_step g) [0..<k] ps"
  have d: "density_of g ?s k = density_of g ps k"
    by (rule density_of_cong) (simp add: pos_fold_computeDensities)
  from Suc.prems have k: "k \<le> length ps" "k < length ps" by simp_all
  show ?case
    by (simp add: computeDensities_step_nth d k Suc.IH [OF k(1)])
qed

lemma computeDensities_nth:
  "i < length ps \<Longrightarrow>
   computeDensities g ps ! i =
     (ps ! i)\<lparr>density := density_of g ps i,
               pressure := gasConstant * (density_of g ps i - restDensity)\<rparr>"
  by (simp add: computeDensities_def fold_computeDensities_nth)

lemma length_computeDensities [simp]: "length (computeDensities g ps) = length ps"
  by (simp add: computeDensities_def)

lemma density_of_sum:
  "density_of g ps i = (\<Sum>j\<leftarrow>Nearby g (ps ! i). mass * poly6 (distance ps i j) h)"
proof -
  have "(if distance ps i j < h then mass * poly6 (distance ps i j) h else 0)
        = mass * poly6 (distance ps i j) h" for j
    by (simp add: poly6_outside)
  then show ?thesis by (simp add: density_of_def fold_density_body)
qed

lemma sum_list_filter_zero:
  fixes f :: "'a \<Rightarrow> real"
  assumes "\<And>x. x \<in> set xs \<Longrightarrow> \<not> P x \<Longrightarrow> f x = 0"
  shows "(\<Sum>x\<leftarrow>filter P xs. f x) = (\<Sum>x\<leftarrow>xs. f x)"
  using assms by (induction xs) auto

text \<open>
  C2: after the density pass of a step, the density of every particle \<open>i\<close> is the sum, over
  every index \<open>j\<close> that \<^verbatim>\<open>Nearby\<close> returns for \<open>i\<close>, of \<open>mass * poly6 (distance i j) h\<close>. The
  indices returned are indices of the slice, each once, and the own index \<open>i\<close> is among
  them. The terms with a distance above \<open>h\<close> are zero, so the sum is the sum over the
  indices within \<open>h\<close>. The pressure is \<open>gasConstant * (density - restDensity)\<close>, with no
  clamp. The pass leaves positions as they are.
\<close>

theorem computeDensities_density_pressure:
  assumes "g = Insert g0 ps" and "i < length ps"
  shows "density (computeDensities g ps ! i)
           = (\<Sum>j\<leftarrow>Nearby g (ps ! i). mass * poly6 (distance ps i j) h)
       \<and> i \<in> set (Nearby g (ps ! i)) \<and> distinct (Nearby g (ps ! i))
       \<and> (\<forall>j\<in>set (Nearby g (ps ! i)). j < length ps)
       \<and> (\<Sum>j\<leftarrow>Nearby g (ps ! i). mass * poly6 (distance ps i j) h)
           = (\<Sum>j\<leftarrow>filter (\<lambda>j. distance ps i j \<le> h) (Nearby g (ps ! i)).
                 mass * poly6 (distance ps i j) h)
       \<and> pressure (computeDensities g ps ! i)
           = gasConstant * (density (computeDensities g ps ! i) - restDensity)
       \<and> pos (computeDensities g ps ! i) = pos (ps ! i)"
proof -
  have "(\<Sum>j\<leftarrow>filter (\<lambda>j. distance ps i j \<le> h) (Nearby g (ps ! i)).
                 mass * poly6 (distance ps i j) h)
        = (\<Sum>j\<leftarrow>Nearby g (ps ! i). mass * poly6 (distance ps i j) h)"
    by (rule sum_list_filter_zero) (simp add: poly6_outside)
  moreover have "i \<in> set (Nearby g (ps ! i))"
    using assms by (simp add: self_in_Nearby_Insert)
  moreover have "distinct (Nearby g (ps ! i))"
    by (simp add: assms(1) distinct_Nearby_Insert)
  moreover have "\<forall>j\<in>set (Nearby g (ps ! i)). j < length ps"
    by (simp add: assms(1) Nearby_Insert_in_range)
  ultimately show ?thesis
    using assms(2) by (simp add: computeDensities_nth density_of_sum)
qed

lemma distance_self [simp]: "distance ps i i = 0"
  by (simp add: distance_def Vector2Subtract_def Vector2Length_def)

theorem computeDensities_density_pressure_witness:
  "pair_grid = Insert new_grid pair_particles \<and> (0::nat) < length pair_particles
   \<and> Nearby pair_grid (pair_particles ! 0) = [0, Suc 0]
   \<and> 0 \<in> set (Nearby pair_grid (pair_particles ! 0))
   \<and> Suc 0 \<in> set (Nearby pair_grid (pair_particles ! 0)) \<and> Suc 0 < length pair_particles
   \<and> density (computeDensities pair_grid pair_particles ! 0)
       = mass * poly6 0 h + mass * poly6 10 h
   \<and> pressure (computeDensities pair_grid pair_particles ! 0)
       = gasConstant * (mass * poly6 0 h + mass * poly6 10 h - restDensity)
   \<and> pressure (computeDensities pair_grid pair_particles ! 0) < 0"
proof -
  have len: "(0::nat) < length pair_particles" by simp
  have n: "Nearby pair_grid (pair_particles ! 0) = [0, Suc 0]"
    by (simp add: pair_grid_def pair_Nearby)
  note w = computeDensities_density_pressure [OF pair_grid_def len]
  have m: "0 \<in> set (Nearby pair_grid (pair_particles ! 0))" using w by blast
  have r: "Suc 0 < length pair_particles" using w n by simp
  have d: "density (computeDensities pair_grid pair_particles ! 0)
        = mass * poly6 0 h + mass * poly6 10 h"
    using w by (simp add: n pair_distance_0_1)
  have p: "pressure (computeDensities pair_grid pair_particles ! 0)
       = gasConstant * (mass * poly6 0 h + mass * poly6 10 h - restDensity)"
    using w d by simp
  have "2 \<le> pi" by (rule pi_ge_two)
  then have "mass * poly6 0 h + mass * poly6 10 h < restDensity"
    by (simp add: mass_def poly6_def h_def restDensity_def field_simps)
  then have "gasConstant * (mass * poly6 0 h + mass * poly6 10 h - restDensity) < 0"
    by (simp add: gasConstant_def)
  with len n m r d p show ?thesis by (simp add: pair_grid_def)
qed

lemma member_le_sum_list_real:
  fixes f :: "'a \<Rightarrow> real"
  assumes "x \<in> set xs" and "\<And>y. y \<in> set xs \<Longrightarrow> 0 \<le> f y"
  shows "f x \<le> (\<Sum>y\<leftarrow>xs. f y)"
  using assms
proof (induction xs)
  case Nil
  then show ?case by simp
next
  case (Cons a xs)
  have nn: "0 \<le> (\<Sum>y\<leftarrow>xs. f y)"
    by (rule sum_list_nonneg) (use Cons.prems in auto)
  show ?case
  proof (cases "x = a")
    case True
    then show ?thesis using nn by simp
  next
    case False
    then have "f x \<le> (\<Sum>y\<leftarrow>xs. f y)" using Cons by auto
    moreover have "0 \<le> f a" using Cons.prems by simp
    ultimately show ?thesis by simp
  qed
qed

lemma h_pos: "0 < h"
  by (simp add: h_def)

lemma self_density_pos: "0 < mass * poly6 0 h"
  by (simp add: mass_def poly6_def h_def)

lemma density_of_lower_bound:
  assumes "i < length ps"
  shows "mass * poly6 0 h \<le> density_of (Insert g ps) ps i"
proof -
  have "mass * poly6 (distance ps i i) h
        \<le> (\<Sum>j\<leftarrow>Nearby (Insert g ps) (ps ! i). mass * poly6 (distance ps i j) h)"
    by (rule member_le_sum_list_real)
       (simp_all add: self_in_Nearby_Insert assms poly6_nonneg h_pos mass_def)
  then show ?thesis by (simp add: density_of_sum)
qed

subsection \<open>The force pass\<close>

lemma Vector2Add_assoc:
  "Vector2Add (Vector2Add a b) c = Vector2Add a (Vector2Add b c)"
  by (simp add: Vector2Add_def)

lemma fold_force_body:
  "fold (force_body ps i) js acc =
     foldl Vector2Add acc
       (map (\<lambda>j. Vector2Add (spec_pressure_contribution ps i j)
                             (spec_viscosity_contribution ps i j (vel (ps ! i)) (vel (ps ! j))))
            (filter (\<lambda>j. j \<noteq> i \<and> 0 < distance ps i j \<and> distance ps i j \<le> h) js))"
proof (induction js arbitrary: acc)
  case Nil
  show ?case by simp
next
  case (Cons j js)
  show ?case
    by (simp add: Cons.IH)
       (simp add: force_body_def Let_def distance_def spec_pressure_contribution_def
          spec_pressureTerm_def spec_viscosity_contribution_def Vector2Add_assoc not_le not_less)
qed

lemma acceleration_spec:
  "acceleration g ps i = spec_acceleration g ps i (\<lambda>j. vel (ps ! j))"
  by (simp add: acceleration_def spec_acceleration_def spec_neighbors_def fold_force_body)

lemma spec_acceleration_cong:
  assumes "\<forall>j. pos (ps' ! j) = pos (ps ! j)"
      and "\<forall>j. density (ps' ! j) = density (ps ! j)"
      and "\<forall>j. pressure (ps' ! j) = pressure (ps ! j)"
  shows "spec_acceleration g ps' i vf = spec_acceleration g ps i vf"
proof -
  have d: "distance ps' = distance ps" using assms(1) by (intro ext) (simp add: distance_def)
  have n: "Nearby g (ps' ! i) = Nearby g (ps ! i)" using assms(1) by (intro Nearby_cong) simp
  show ?thesis
    using assms
    by (simp add: spec_acceleration_def spec_neighbors_def spec_pressure_contribution_def
        spec_pressureTerm_def spec_viscosity_contribution_def d n)
qed

lemma length_computeForces_step [simp]:
  "length (computeForces_step g i ps) = length ps"
  by (simp add: computeForces_step_def Let_def)

lemma length_fold_computeForces [simp]:
  "length (fold (computeForces_step g) is ps) = length ps"
  by (induction "is" arbitrary: ps) simp_all

lemma length_computeForces [simp]: "length (computeForces g ps) = length ps"
  by (simp add: computeForces_def)

lemma pos_computeForces_step:
  "pos (computeForces_step g i ps ! j) = pos (ps ! j)"
  by (simp add: computeForces_step_def Let_def nth_update_field)

lemma density_computeForces_step:
  "density (computeForces_step g i ps ! j) = density (ps ! j)"
  by (simp add: computeForces_step_def Let_def nth_update_field)

lemma pressure_computeForces_step:
  "pressure (computeForces_step g i ps ! j) = pressure (ps ! j)"
  by (simp add: computeForces_step_def Let_def nth_update_field)

lemma pos_fold_computeForces:
  "pos (fold (computeForces_step g) is ps ! j) = pos (ps ! j)"
  by (induction "is" arbitrary: ps) (simp_all add: pos_computeForces_step)

lemma density_fold_computeForces:
  "density (fold (computeForces_step g) is ps ! j) = density (ps ! j)"
  by (induction "is" arbitrary: ps) (simp_all add: density_computeForces_step)

lemma pressure_fold_computeForces:
  "pressure (fold (computeForces_step g) is ps ! j) = pressure (ps ! j)"
  by (induction "is" arbitrary: ps) (simp_all add: pressure_computeForces_step)

lemma computeForces_step_other:
  "j \<noteq> i \<Longrightarrow> computeForces_step g i ps ! j = ps ! j"
  by (simp add: computeForces_step_def Let_def)

lemma computeForces_step_self:
  "i < length ps \<Longrightarrow>
   computeForces_step g i ps ! i =
     (ps ! i)\<lparr>vel := Vector2Add (vel (ps ! i)) (Vector2Scale (acceleration g ps i) timeStep)\<rparr>"
  by (simp add: computeForces_step_def Let_def)

text \<open>When the loop reaches index \<open>k\<close>, the particles from \<open>k\<close> on are untouched.\<close>

lemma fold_computeForces_later:
  "k \<le> j \<Longrightarrow> fold (computeForces_step g) [0..<k] ps ! j = ps ! j"
  by (induction k) (simp_all add: computeForces_step_other)

text \<open>A particle that the loop has passed is not written again.\<close>

lemma fold_computeForces_earlier:
  "j < k \<Longrightarrow> k \<le> m \<Longrightarrow>
   fold (computeForces_step g) [0..<m] ps ! j = fold (computeForces_step g) [0..<k] ps ! j"
proof (induction m)
  case 0
  then show ?case by simp
next
  case (Suc m)
  show ?case
  proof (cases "k = Suc m")
    case True
    then show ?thesis by simp
  next
    case False
    with Suc.prems have "k \<le> m" by simp
    with Suc have "fold (computeForces_step g) [0..<m] ps ! j
                 = fold (computeForces_step g) [0..<k] ps ! j" by simp
    moreover have "j \<noteq> m" using Suc.prems \<open>k \<le> m\<close> by simp
    ultimately show ?thesis by (simp add: computeForces_step_other)
  qed
qed

lemma computeForces_nth:
  assumes "i < length ps"
  shows "computeForces g ps ! i =
     (ps ! i)\<lparr>vel := Vector2Add (vel (ps ! i))
                (Vector2Scale (acceleration g (fold (computeForces_step g) [0..<i] ps) i)
                   timeStep)\<rparr>"
proof -
  let ?s = "fold (computeForces_step g) [0..<i] ps"
  have "computeForces g ps ! i = fold (computeForces_step g) [0..<Suc i] ps ! i"
    unfolding computeForces_def using assms
    by (intro fold_computeForces_earlier) simp_all
  also have "\<dots> = computeForces_step g i ?s ! i" by simp
  also have "\<dots> = (?s ! i)\<lparr>vel := Vector2Add (vel (?s ! i))
                        (Vector2Scale (acceleration g ?s i) timeStep)\<rparr>"
    using assms by (simp add: computeForces_step_self)
  also have "?s ! i = ps ! i" by (simp add: fold_computeForces_later)
  finally show ?thesis .
qed

lemma spec_acceleration_state:
  "acceleration g (fold (computeForces_step g) [0..<i] ps) i
     = spec_acceleration g ps i (\<lambda>j. vel (fold (computeForces_step g) [0..<i] ps ! j))"
proof -
  let ?s = "fold (computeForces_step g) [0..<i] ps"
  have "acceleration g ?s i = spec_acceleration g ?s i (\<lambda>j. vel (?s ! j))"
    by (rule acceleration_spec)
  also have "\<dots> = spec_acceleration g ps i (\<lambda>j. vel (?s ! j))"
    by (rule spec_acceleration_cong)
       (simp_all add: pos_fold_computeForces density_fold_computeForces
          pressure_fold_computeForces)
  finally show ?thesis .
qed

lemma Nearby_after_density_pass:
  "Nearby g (fold (computeForces_step g) [0..<k] (computeDensities g ps) ! i)
     = Nearby g (ps ! i)"
  by (rule Nearby_cong)
     (simp add: pos_fold_computeForces computeDensities_def pos_fold_computeDensities)

lemma distance_after_density_pass:
  "distance (computeDensities g ps) i j = distance ps i j"
  by (simp add: distance_def computeDensities_def pos_fold_computeDensities)

text \<open>
  C3: in the force pass of a step, for every particle \<open>i\<close>, the acceleration starts from
  \<open>(0, gravity)\<close> and, for every index \<open>j \<noteq> i\<close> that \<^verbatim>\<open>Nearby\<close> returns for \<open>i\<close> with
  \<open>0 < r \<le> h\<close>, grows by the pressure contribution \<open>spikyGrad (pos_i - pos_j) r h\<close> scaled by
  \<open>pressureTerm / density_j\<close>, where
  \<open>pressureTerm = - mass * (pressure_i + pressure_j) / (2 * density_j)\<close>, and by the
  viscosity contribution \<open>(vel_j - vel_i) * viscosity * viscLaplacian r h / density_j\<close>;
  the velocity of \<open>i\<close> then grows by the acceleration times the time step. Positions,
  densities and pressures are those the density pass has left; the velocities are those
  the slice holds when the loop reaches \<open>i\<close>; the neighbours are indices of the slice.
\<close>

theorem computeForces_accumulation:
  assumes "g = Insert g0 ps" and "ps1 = computeDensities g ps" and "i < length ps"
  shows "vel (computeForces g ps1 ! i) =
           Vector2Add (vel (ps1 ! i))
             (Vector2Scale
                (spec_acceleration g ps1 i
                   (\<lambda>j. vel (fold (computeForces_step g) [0..<i] ps1 ! j)))
                timeStep)
       \<and> (\<forall>j\<in>set (spec_neighbors g ps1 i).
            j < length ps \<and> j \<noteq> i \<and> 0 < distance ps i j \<and> distance ps i j \<le> h)"
proof -
  have "Nearby g (ps1 ! i) = Nearby g (ps ! i)"
    using Nearby_after_density_pass [of g 0 ps i] by (simp add: assms(2))
  then have "\<forall>j\<in>set (spec_neighbors g ps1 i).
            j < length ps \<and> j \<noteq> i \<and> 0 < distance ps i j \<and> distance ps i j \<le> h"
    by (auto simp: spec_neighbors_def assms(1,2) distance_after_density_pass
          dest: Nearby_Insert_in_range)
  moreover have "i < length ps1" using assms(2,3) by simp
  ultimately show ?thesis
    by (simp add: computeForces_nth spec_acceleration_state)
qed

lemma pair_densities_length [simp]: "length pair_densities = 2"
  by (simp add: pair_densities_def)

lemma pair_densities_pos [simp]: "pos (pair_densities ! j) = pos (pair_particles ! j)"
  by (simp add: pair_densities_def computeDensities_def pos_fold_computeDensities)

lemma pair_densities_vel [simp]: "vel (pair_densities ! j) = vel (pair_particles ! j)"
  by (simp add: pair_densities_def computeDensities_def vel_fold_computeDensities)

lemma pair_densities_distance [simp]:
  "distance pair_densities i j = distance pair_particles i j"
  by (simp add: distance_def)

lemma pair_densities_Nearby:
  "Nearby pair_grid (pair_densities ! 0) = [0, Suc 0]"
  "Nearby pair_grid (pair_densities ! Suc 0) = [0, Suc 0]"
  using pair_Nearby
  by (simp_all add: pair_grid_def Nearby_cong [of "pair_densities ! j" "pair_particles ! j" for j])

theorem computeForces_accumulation_witness:
  "pair_grid = Insert new_grid pair_particles
   \<and> pair_densities = computeDensities pair_grid pair_particles
   \<and> (0::nat) < length pair_particles
   \<and> vel (computeForces pair_grid pair_densities ! 0) =
       Vector2Add (vel (pair_densities ! 0))
         (Vector2Scale
            (spec_acceleration pair_grid pair_densities 0
               (\<lambda>j. vel (fold (computeForces_step pair_grid) [0..<0] pair_densities ! j)))
            timeStep)
   \<and> spec_neighbors pair_grid pair_densities 0 = [Suc 0]
   \<and> Suc 0 \<in> set (spec_neighbors pair_grid pair_densities 0)
   \<and> Suc 0 < length pair_particles \<and> Suc 0 \<noteq> 0
   \<and> 0 < distance pair_particles 0 (Suc 0) \<and> distance pair_particles 0 (Suc 0) \<le> h"
proof -
  have len: "(0::nat) < length pair_particles" by simp
  have n: "spec_neighbors pair_grid pair_densities 0 = [Suc 0]"
    by (simp add: spec_neighbors_def pair_densities_Nearby pair_distance_0_1 h_def)
  note w = computeForces_accumulation [OF pair_grid_def pair_densities_def len]
  have m: "Suc 0 \<in> set (spec_neighbors pair_grid pair_densities 0)" by (simp add: n)
  have "Suc 0 < length pair_particles \<and> Suc 0 \<noteq> 0
        \<and> 0 < distance pair_particles 0 (Suc 0) \<and> distance pair_particles 0 (Suc 0) \<le> h"
    using w m by blast
  with w len n m show ?thesis by (simp add: pair_grid_def pair_densities_def)
qed

text \<open>
  C4: the force pass of a step updates the velocity of particle \<open>i\<close> in place as soon as the
  neighbour loop of \<open>i\<close> is done, and takes no snapshot: the acceleration of \<open>i\<close> is computed
  on the slice as the loop has left it, in which every \<open>j < i\<close> already has the velocity
  it has at the end of the pass and every \<open>j \<ge> i\<close> still has the velocity it had before
  the pass. So the viscosity term of \<open>i\<close> reads the updated velocity of a neighbour \<open>j < i\<close>
  and the old velocity of a neighbour \<open>j > i\<close>.
\<close>

theorem computeForces_sequential:
  assumes "g = Insert g0 ps" and "ps1 = computeDensities g ps" and "i < length ps"
  shows "vel (computeForces g ps1 ! i) =
           Vector2Add (vel (ps1 ! i))
             (Vector2Scale
                (acceleration g (fold (computeForces_step g) [0..<i] ps1) i) timeStep)
       \<and> (\<forall>j<i. vel (fold (computeForces_step g) [0..<i] ps1 ! j)
                    = vel (computeForces g ps1 ! j))
       \<and> (\<forall>j\<ge>i. vel (fold (computeForces_step g) [0..<i] ps1 ! j) = vel (ps1 ! j))
       \<and> acceleration g (fold (computeForces_step g) [0..<i] ps1) i
           = spec_acceleration g ps1 i
               (\<lambda>j. if j < i then vel (computeForces g ps1 ! j) else vel (ps1 ! j))"
proof -
  let ?s = "fold (computeForces_step g) [0..<i] ps1"
  have len: "i < length ps1" using assms(2,3) by simp
  have early: "vel (?s ! j) = vel (computeForces g ps1 ! j)" if "j < i" for j
    unfolding computeForces_def
    using that len by (subst fold_computeForces_earlier [of j i "length ps1"]) simp_all
  have late: "vel (?s ! j) = vel (ps1 ! j)" if "i \<le> j" for j
    using that by (simp add: fold_computeForces_later)
  have vf: "(\<lambda>j. vel (?s ! j))
          = (\<lambda>j. if j < i then vel (computeForces g ps1 ! j) else vel (ps1 ! j))"
    by (intro ext) (simp add: early late)
  have "acceleration g ?s i = spec_acceleration g ps1 i
               (\<lambda>j. if j < i then vel (computeForces g ps1 ! j) else vel (ps1 ! j))"
    using spec_acceleration_state [of g i ps1] by (simp only: vf)
  then show ?thesis
    using len early late by (simp add: computeForces_nth)
qed

lemma pair_acceleration_Y: "Y (acceleration pair_grid pair_densities 0) = gravity"
proof -
  have r: "Vector2Length (Vector2Subtract (pos (pair_particles ! 0)) (pos (pair_particles ! Suc 0)))
           = 10"
    using pair_distance_0_1 by (simp add: distance_def)
  have y: "Y (Vector2Subtract (pos (pair_particles ! 0)) (pos (pair_particles ! Suc 0))) = 0"
          "Y (Vector2Subtract (vel (pair_particles ! Suc 0)) (vel (pair_particles ! 0))) = 0"
    by (simp_all add: pair_particles_def Vector2Subtract_def)
  show ?thesis
    by (simp add: acceleration_def pair_densities_Nearby force_body_def Let_def r h_def
          spikyGrad_def Vector2Add_def Vector2Scale_def y)
qed

theorem computeForces_sequential_witness:
  "pair_grid = Insert new_grid pair_particles
   \<and> pair_densities = computeDensities pair_grid pair_particles
   \<and> Suc 0 < length pair_particles
   \<and> (0 < Suc 0
      \<and> vel (fold (computeForces_step pair_grid) [0..<Suc 0] pair_densities ! 0)
          = vel (computeForces pair_grid pair_densities ! 0))
   \<and> (Suc 0 \<le> Suc 0
      \<and> vel (fold (computeForces_step pair_grid) [0..<Suc 0] pair_densities ! Suc 0)
          = vel (pair_densities ! Suc 0))
   \<and> Y (vel (pair_densities ! 0)) = 0
   \<and> Y (vel (computeForces pair_grid pair_densities ! 0)) = 4.5"
proof -
  have len: "Suc 0 < length pair_particles" "0 < length pair_densities" by simp_all
  note w = computeForces_sequential [OF pair_grid_def pair_densities_def len(1)]
  have a: "vel (fold (computeForces_step pair_grid) [0..<Suc 0] pair_densities ! 0)
          = vel (computeForces pair_grid pair_densities ! 0)"
    using w by blast
  have b: "vel (fold (computeForces_step pair_grid) [0..<Suc 0] pair_densities ! Suc 0)
          = vel (pair_densities ! Suc 0)"
    using w by blast
  have c: "Y (vel (pair_densities ! 0)) = 0" by (simp add: pair_particles_def)
  have "Y (vel (computeForces pair_grid pair_densities ! 0))
        = Y (vel (pair_densities ! 0)) + Y (acceleration pair_grid pair_densities 0) * timeStep"
    using computeForces_nth [OF len(2), of pair_grid]
    by (simp add: Vector2Add_def Vector2Scale_def)
  then have d: "Y (vel (computeForces pair_grid pair_densities ! 0)) = 4.5"
    by (simp only: c pair_acceleration_Y) (simp add: gravity_def timeStep_def)
  from len a b c d show ?thesis by (simp add: pair_grid_def pair_densities_def)
qed

lemma in_concat_map: "d \<in> set (concat (map f xs)) \<longleftrightarrow> (\<exists>x\<in>set xs. d \<in> set (f x))"
  by auto

lemma cellKey_divisors_mem: "d \<in> set (cellKey_divisors g p) \<Longrightarrow> d = cellSize g"
  by (simp add: cellKey_divisors_def)

lemma Insert_divisors_pos:
  assumes "0 < cellSize g" and "d \<in> set (Insert_divisors g ps)"
  shows "0 < d"
proof -
  from assms(2) obtain i where
    "d \<in> set (cellKey_divisors (fold (Insert_step ps) [0..<i] (Clear g)) (ps ! i))"
    unfolding Insert_divisors_def in_concat_map by blast
  then have "d = cellSize (fold (Insert_step ps) [0..<i] (Clear g))"
    by (rule cellKey_divisors_mem)
  with assms(1) show ?thesis by simp
qed

lemma poly6_divisors_pos: "d \<in> set (poly6_divisors r h) \<Longrightarrow> 0 < d"
  by (cases "r \<ge> 0 \<and> r \<le> h") (simp_all add: poly6_divisors_def h_def)

lemma density_body_divisors_pos:
  assumes "d \<in> set (density_body_divisors ps i j)"
  shows "0 < d"
proof (cases "Vector2Length (Vector2Subtract (pos (ps ! i)) (pos (ps ! j))) < h")
  case True
  with assms show ?thesis
    by (simp add: density_body_divisors_def Let_def poly6_divisors_pos)
next
  case False
  with assms show ?thesis by (simp add: density_body_divisors_def Let_def)
qed

lemma density_of_divisors_pos:
  assumes "0 < cellSize g" and "d \<in> set (density_of_divisors g ps i)"
  shows "0 < d"
proof -
  from assms(2) have "d \<in> set (cellKey_divisors g (ps ! i))
      \<or> d \<in> set (concat (map (density_body_divisors ps i) (Nearby g (ps ! i))))"
    unfolding density_of_divisors_def set_append by (rule UnE) simp_all
  then have "d \<in> set (cellKey_divisors g (ps ! i))
      \<or> (\<exists>j\<in>set (Nearby g (ps ! i)). d \<in> set (density_body_divisors ps i j))"
    by (simp only: in_concat_map)
  then show ?thesis
  proof
    assume "d \<in> set (cellKey_divisors g (ps ! i))"
    then have "d = cellSize g" by (rule cellKey_divisors_mem)
    with assms(1) show ?thesis by simp
  next
    assume "\<exists>j\<in>set (Nearby g (ps ! i)). d \<in> set (density_body_divisors ps i j)"
    then show ?thesis using density_body_divisors_pos by blast
  qed
qed

lemma computeDensities_divisors_pos:
  assumes "0 < cellSize g" and "d \<in> set (computeDensities_divisors g ps)"
  shows "0 < d"
proof -
  from assms(2) obtain i where
    "d \<in> set (density_of_divisors g (fold (computeDensities_step g) [0..<i] ps) i)"
    unfolding computeDensities_divisors_def in_concat_map by blast
  with assms(1) show ?thesis by (rule density_of_divisors_pos)
qed

lemma spikyGrad_divisors_pos: "d \<in> set (spikyGrad_divisors r h) \<Longrightarrow> 0 < d"
  by (cases "r > 0 \<and> r \<le> h") (auto simp: spikyGrad_divisors_def h_def)

lemma viscLaplacian_divisors_pos: "d \<in> set (viscLaplacian_divisors r h) \<Longrightarrow> 0 < d"
  by (cases "r \<ge> 0 \<and> r \<le> h") (simp_all add: viscLaplacian_divisors_def h_def)

lemma force_body_divisors_mem:
  assumes "d \<in> set (force_body_divisors ps i j)"
  shows "d = 2 * density (ps ! j) \<or> d = density (ps ! j)
       \<or> d \<in> set (spikyGrad_divisors
                     (Vector2Length (Vector2Subtract (pos (ps ! i)) (pos (ps ! j)))) h)
       \<or> d \<in> set (viscLaplacian_divisors
                     (Vector2Length (Vector2Subtract (pos (ps ! i)) (pos (ps ! j)))) h)"
proof (cases "i = j")
  case True
  with assms show ?thesis by (simp add: force_body_divisors_def)
next
  case False
  let ?r = "Vector2Length (Vector2Subtract (pos (ps ! i)) (pos (ps ! j)))"
  show ?thesis
  proof (cases "?r \<le> 0 \<or> ?r > h")
    case True
    with assms \<open>i \<noteq> j\<close> show ?thesis by (simp add: force_body_divisors_def Let_def)
  next
    case False
    with assms \<open>i \<noteq> j\<close> have
      "d \<in> set ([2 * density (ps ! j)] @ spikyGrad_divisors ?r h @ [density (ps ! j)]
               @ viscLaplacian_divisors ?r h @ [density (ps ! j)])"
      by (simp add: force_body_divisors_def Let_def)
    then show ?thesis unfolding set_append by auto
  qed
qed

lemma force_body_divisors_pos:
  assumes "0 < density (ps ! j)" and "d \<in> set (force_body_divisors ps i j)"
  shows "0 < d"
  using force_body_divisors_mem [OF assms(2)] assms(1)
    spikyGrad_divisors_pos viscLaplacian_divisors_pos
  by (elim disjE) simp_all

lemma Vector2Normalize_divisors_pos: "d \<in> set (Vector2Normalize_divisors v) \<Longrightarrow> 0 < d"
  by (cases "Vector2Length v > 0") (simp_all add: Vector2Normalize_divisors_def Let_def)

lemma clampVelocity_divisors_pos:
  assumes "d \<in> set (clampVelocity_divisors p)"
  shows "0 < d"
proof (cases "Vector2Length (vel p) > 1000")
  case True
  with assms show ?thesis
    by (simp add: clampVelocity_divisors_def Let_def Vector2Normalize_divisors_pos)
next
  case False
  with assms show ?thesis by (simp add: clampVelocity_divisors_def Let_def)
qed

lemma integrate_divisors_pos:
  assumes "d \<in> set (integrate_divisors ps)"
  shows "0 < d"
proof -
  from assms obtain p where "d \<in> set (clampVelocity_divisors (wallCollisions (advance p)))"
    unfolding integrate_divisors_def in_concat_map by blast
  then show ?thesis by (rule clampVelocity_divisors_pos)
qed

lemma force_pass_density_pos:
  assumes "g = Insert g0 ps" and "ps1 = computeDensities g ps" and "i < length ps"
      and "j \<in> set (Nearby g (fold (computeForces_step g) [0..<i] ps1 ! i))"
  shows "j < length ps \<and> 0 < density (fold (computeForces_step g) [0..<i] ps1 ! j)"
proof -
  have "Nearby g (fold (computeForces_step g) [0..<i] ps1 ! i) = Nearby g (ps ! i)"
    by (simp add: assms(2) Nearby_after_density_pass)
  with assms(4) have j: "j < length ps"
    by (simp add: assms(1) Nearby_Insert_in_range)
  have "mass * poly6 0 h \<le> density (ps1 ! j)"
    using density_of_lower_bound [OF j, of g0]
    by (simp add: assms(1,2) computeDensities_nth j)
  then have "0 < density (ps1 ! j)" using self_density_pos by linarith
  with j show ?thesis by (simp add: density_fold_computeForces)
qed

lemma acceleration_divisors_mem:
  assumes "d \<in> set (acceleration_divisors g ps i)"
  shows "d = cellSize g
       \<or> (\<exists>j\<in>set (Nearby g (ps ! i)). d \<in> set (force_body_divisors ps i j))"
proof -
  from assms have "d \<in> set (cellKey_divisors g (ps ! i))
      \<or> d \<in> set (concat (map (force_body_divisors ps i) (Nearby g (ps ! i))))"
    unfolding acceleration_divisors_def set_append by (rule UnE) simp_all
  then show ?thesis
    using cellKey_divisors_mem [of d g "ps ! i"] by (simp only: in_concat_map) blast
qed

lemma computeForces_divisors_pos:
  assumes "g = Insert g0 ps" and "ps1 = computeDensities g ps" and "0 < cellSize g"
      and "d \<in> set (computeForces_divisors g ps1)"
  shows "0 < d"
proof -
  from assms(4) obtain i where i: "i \<in> set [0..<length ps1]"
    and d: "d \<in> set (acceleration_divisors g (fold (computeForces_step g) [0..<i] ps1) i)"
    unfolding computeForces_divisors_def in_concat_map by blast
  let ?s = "fold (computeForces_step g) [0..<i] ps1"
  from acceleration_divisors_mem [OF d] show ?thesis
  proof
    assume "d = cellSize g"
    then show ?thesis using assms(3) by simp
  next
    assume "\<exists>j\<in>set (Nearby g (?s ! i)). d \<in> set (force_body_divisors ?s i j)"
    then obtain j where j: "j \<in> set (Nearby g (?s ! i))"
      and dj: "d \<in> set (force_body_divisors ?s i j)" by blast
    have "i < length ps" using i by (simp add: assms(2))
    from force_pass_density_pos [OF assms(1,2) this j]
    have "0 < density (?s ! j)" by simp
    then show ?thesis using dj by (rule force_body_divisors_pos)
  qed
qed

lemma Step_divisors_mem:
  assumes "d \<in> set (Step_divisors s)"
  shows "d \<in> set (Insert_divisors (grid s) (particles s))
       \<or> d \<in> set (computeDensities_divisors (Insert (grid s) (particles s)) (particles s))
       \<or> d \<in> set (computeForces_divisors (Insert (grid s) (particles s))
                     (computeDensities (Insert (grid s) (particles s)) (particles s)))
       \<or> d \<in> set (integrate_divisors
                     (computeForces (Insert (grid s) (particles s))
                        (computeDensities (Insert (grid s) (particles s)) (particles s))))"
  using assms unfolding Step_divisors_def Let_def set_append Un_iff by simp

lemma Step_divisors_pos:
  assumes "cellSize (grid s) = h" and "d \<in> set (Step_divisors s)"
  shows "0 < d"
proof -
  let ?g = "Insert (grid s) (particles s)"
  have c: "0 < cellSize (grid s)" "0 < cellSize ?g" using assms(1) by (simp_all add: h_def)
  from Step_divisors_mem [OF assms(2)] show ?thesis
  proof (elim disjE)
    assume "d \<in> set (Insert_divisors (grid s) (particles s))"
    with c(1) show ?thesis by (rule Insert_divisors_pos)
  next
    assume "d \<in> set (computeDensities_divisors ?g (particles s))"
    with c(2) show ?thesis by (rule computeDensities_divisors_pos)
  next
    assume "d \<in> set (computeForces_divisors ?g (computeDensities ?g (particles s)))"
    with c(2) show ?thesis by (rule computeForces_divisors_pos [OF refl refl])
  next
    assume "d \<in> set (integrate_divisors (computeForces ?g (computeDensities ?g (particles s))))"
    then show ?thesis by (rule integrate_divisors_pos)
  qed
qed

lemma pair_force_divisor: "10 \<in> set (computeForces_divisors pair_grid pair_densities)"
proof -
  have r: "Vector2Length (Vector2Subtract (pos (pair_particles ! 0)) (pos (pair_particles ! Suc 0)))
           = 10"
    using pair_distance_0_1 by (simp add: distance_def)
  have "10 \<in> set (force_body_divisors pair_densities 0 (Suc 0))"
    by (simp add: force_body_divisors_def Let_def r h_def spikyGrad_divisors_def)
  then have "10 \<in> set (acceleration_divisors pair_grid
                          (fold (computeForces_step pair_grid) [0..<0] pair_densities) 0)"
    by (simp add: acceleration_divisors_def pair_densities_Nearby)
  moreover have "0 \<in> set [0..<length pair_densities]" by simp
  ultimately show ?thesis
    unfolding computeForces_divisors_def in_concat_map by blast
qed

text \<open>
  C10: after the density pass of a step, the density of every particle is at least
  \<open>mass * poly6 0 h\<close>, which is positive, because \<^verbatim>\<open>Nearby\<close> returns every particle's own
  index for it and no term of the sum is negative. The force pass leaves densities as
  they are, so every \<^verbatim>\<open>pj.density\<close> it divides by is positive, for every index \<open>j\<close> that
  \<^verbatim>\<open>Nearby\<close> returns, and \<open>j\<close> is an index of the slice. Every divisor that a step
  evaluates is positive: the cell size, the constants of the kernels, the densities, the
  distance \<open>r\<close> that \<^verbatim>\<open>spikyGrad\<close> divides by and the length that the normalisation divides
  by. So no division of a step has the divisor zero.
\<close>

theorem density_divisors_positive:
  assumes "cellSize g0 = h" and "g = Insert g0 ps" and "ps1 = computeDensities g ps"
  shows "0 < mass * poly6 0 h
       \<and> (\<forall>i<length ps. mass * poly6 0 h \<le> density (ps1 ! i))
       \<and> (\<forall>i<length ps.
            \<forall>j\<in>set (Nearby g (fold (computeForces_step g) [0..<i] ps1 ! i)).
              j < length ps \<and> 0 < density (fold (computeForces_step g) [0..<i] ps1 ! j))
       \<and> 0 < cellSize g \<and> 0 < 64 * pi * h ^ 9 \<and> 0 < pi * h ^ 6
       \<and> (\<forall>d\<in>set (Step_divisors \<lparr>particles = ps, grid = g0\<rparr>). 0 < d)
       \<and> 0 \<notin> set (Step_divisors \<lparr>particles = ps, grid = g0\<rparr>)"
proof -
  have low: "mass * poly6 0 h \<le> density (ps1 ! i)" if "i < length ps" for i
    using that density_of_lower_bound [OF that, of g0]
    by (simp add: assms(2,3) computeDensities_nth)
  have div: "j < length ps \<and> 0 < density (fold (computeForces_step g) [0..<i] ps1 ! j)"
    if "i < length ps" and "j \<in> set (Nearby g (fold (computeForces_step g) [0..<i] ps1 ! i))"
    for i j
    using force_pass_density_pos [OF assms(2,3) that] .
  have all: "0 < d" if "d \<in> set (Step_divisors \<lparr>particles = ps, grid = g0\<rparr>)" for d
    using that assms(1) by (intro Step_divisors_pos [of "\<lparr>particles = ps, grid = g0\<rparr>"]) simp_all
  then have none: "0 \<notin> set (Step_divisors \<lparr>particles = ps, grid = g0\<rparr>)"
    by (metis less_irrefl)
  have "0 < cellSize g" by (simp add: assms(1,2) h_pos)
  moreover have "0 < 64 * pi * h ^ 9 \<and> 0 < pi * h ^ 6" by (simp add: h_def)
  ultimately show ?thesis using self_density_pos low div all none by blast
qed

theorem density_divisors_positive_witness:
  "cellSize new_grid = h \<and> pair_grid = Insert new_grid pair_particles
   \<and> pair_densities = computeDensities pair_grid pair_particles
   \<and> (0::nat) < length pair_particles
   \<and> mass * poly6 0 h \<le> density (pair_densities ! 0)
   \<and> Suc 0 \<in> set (Nearby pair_grid
                   (fold (computeForces_step pair_grid) [0..<0] pair_densities ! 0))
   \<and> Suc 0 < length pair_particles
   \<and> 0 < density (fold (computeForces_step pair_grid) [0..<0] pair_densities ! Suc 0)
   \<and> 10 \<in> set (Step_divisors \<lparr>particles = pair_particles, grid = new_grid\<rparr>)
   \<and> (0::real) < 10
   \<and> 0 \<notin> set (Step_divisors \<lparr>particles = pair_particles, grid = new_grid\<rparr>)"
proof -
  have a: "cellSize new_grid = h" by (simp add: new_grid_def)
  have len: "(0::nat) < length pair_particles" by simp
  have mem: "Suc 0 \<in> set (Nearby pair_grid
                   (fold (computeForces_step pair_grid) [0..<0] pair_densities ! 0))"
    by (simp add: pair_densities_Nearby)
  have ten: "10 \<in> set (Step_divisors \<lparr>particles = pair_particles, grid = new_grid\<rparr>)"
    using pair_force_divisor
    by (simp add: Step_divisors_def Let_def pair_grid_def pair_densities_def)
  note w = density_divisors_positive [OF a pair_grid_def pair_densities_def]
  have low: "mass * poly6 0 h \<le> density (pair_densities ! 0)"
    using w len by blast
  have div: "Suc 0 < length pair_particles
     \<and> 0 < density (fold (computeForces_step pair_grid) [0..<0] pair_densities ! Suc 0)"
    using w len mem by blast
  have pos: "(0::real) < 10" using w ten by blast
  have none: "0 \<notin> set (Step_divisors \<lparr>particles = pair_particles, grid = new_grid\<rparr>)"
    using w by blast
  from a len mem low div ten pos none show ?thesis
    by (simp add: pair_grid_def pair_densities_def)
qed

subsection \<open>Integration\<close>

lemma pos_after_clamp_drag [simp]:
  "pos (applyDrag (clampVelocity q)) = pos q"
  by (simp add: applyDrag_def clampVelocity_def Let_def)

lemma vel_advance [simp]: "vel (advance p) = vel p"
  by (simp add: advance_def)

lemma wallCollisions_X:
  "X (pos (wallCollisions q)) =
     (if X (pos q) < 5 then 5 else if X (pos q) > windowWidth - 5 then windowWidth - 5
      else X (pos q))"
  "X (vel (wallCollisions q)) =
     (if X (pos q) < 5 \<or> X (pos q) > windowWidth - 5 then - 0.5 * X (vel q) else X (vel q))"
  by (simp_all add: wallCollisions_def Let_def windowWidth_def)

lemma wallCollisions_Y:
  "Y (pos (wallCollisions q)) =
     (if Y (pos q) < 5 then 5 else if Y (pos q) > windowHeight - 5 then windowHeight - 5
      else Y (pos q))"
  "Y (vel (wallCollisions q)) =
     (if Y (pos q) < 5 \<or> Y (pos q) > windowHeight - 5 then - 0.5 * Y (vel q) else Y (vel q))"
  by (simp_all add: wallCollisions_def Let_def windowHeight_def)

lemma integrate_nth:
  "i < length ps \<Longrightarrow> integrate ps ! i = integrate_particle (ps ! i)"
  by (simp add: integrate_def)

lemma vel_integrate_particle:
  "vel (integrate_particle p)
     = Vector2Scale (vel (clampVelocity (wallCollisions (advance p)))) 0.995"
  by (simp add: integrate_particle_def applyDrag_def Let_def)

lemma clampVelocity_slow:
  "Vector2Length (vel q) \<le> 1000 \<Longrightarrow> clampVelocity q = q"
  by (simp add: clampVelocity_def Let_def)

text \<open>
  C6: \<^verbatim>\<open>integrate\<close> leaves every particle \<open>i\<close> of the slice as follows. When the position
  update carries a coordinate past a wall (below the margin \<open>5\<close>, or above the window width
  or height less \<open>5\<close>), the coordinate at the end of \<^verbatim>\<open>integrate\<close> is exactly the wall value,
  and the wall test multiplies the same component of the velocity by \<open>-0.5\<close>, for each of
  the four walls and each axis on its own; a coordinate inside the walls and its velocity
  component are left alone. The velocity at the end of \<^verbatim>\<open>integrate\<close> is the reflected
  velocity after the speed clamp and the drag: where the reflected velocity has length at
  most \<open>1000\<close> the clamp leaves it alone, and the component at the end is \<open>-0.5\<close> times the
  component before the collision, times the drag \<open>0.995\<close>. The particles at the end of a
  step are those that \<^verbatim>\<open>integrate\<close> leaves.
\<close>

theorem wall_reflection:
  assumes "i < length ps"
  shows
  "(X (pos (advance (ps ! i))) > windowWidth - 5 \<longrightarrow>
      X (pos (integrate ps ! i)) = windowWidth - 5
    \<and> X (pos (wallCollisions (advance (ps ! i)))) = windowWidth - 5
    \<and> X (vel (wallCollisions (advance (ps ! i)))) = - 0.5 * X (vel (ps ! i))
    \<and> (Vector2Length (vel (wallCollisions (advance (ps ! i)))) \<le> 1000 \<longrightarrow>
         X (vel (integrate ps ! i)) = - 0.5 * X (vel (ps ! i)) * 0.995))
 \<and> (X (pos (advance (ps ! i))) < 5 \<longrightarrow>
      X (pos (integrate ps ! i)) = 5
    \<and> X (pos (wallCollisions (advance (ps ! i)))) = 5
    \<and> X (vel (wallCollisions (advance (ps ! i)))) = - 0.5 * X (vel (ps ! i))
    \<and> (Vector2Length (vel (wallCollisions (advance (ps ! i)))) \<le> 1000 \<longrightarrow>
         X (vel (integrate ps ! i)) = - 0.5 * X (vel (ps ! i)) * 0.995))
 \<and> (Y (pos (advance (ps ! i))) > windowHeight - 5 \<longrightarrow>
      Y (pos (integrate ps ! i)) = windowHeight - 5
    \<and> Y (pos (wallCollisions (advance (ps ! i)))) = windowHeight - 5
    \<and> Y (vel (wallCollisions (advance (ps ! i)))) = - 0.5 * Y (vel (ps ! i))
    \<and> (Vector2Length (vel (wallCollisions (advance (ps ! i)))) \<le> 1000 \<longrightarrow>
         Y (vel (integrate ps ! i)) = - 0.5 * Y (vel (ps ! i)) * 0.995))
 \<and> (Y (pos (advance (ps ! i))) < 5 \<longrightarrow>
      Y (pos (integrate ps ! i)) = 5
    \<and> Y (pos (wallCollisions (advance (ps ! i)))) = 5
    \<and> Y (vel (wallCollisions (advance (ps ! i)))) = - 0.5 * Y (vel (ps ! i))
    \<and> (Vector2Length (vel (wallCollisions (advance (ps ! i)))) \<le> 1000 \<longrightarrow>
         Y (vel (integrate ps ! i)) = - 0.5 * Y (vel (ps ! i)) * 0.995))
 \<and> (5 \<le> X (pos (advance (ps ! i))) \<and> X (pos (advance (ps ! i))) \<le> windowWidth - 5 \<longrightarrow>
      X (pos (integrate ps ! i)) = X (pos (advance (ps ! i)))
    \<and> X (vel (wallCollisions (advance (ps ! i)))) = X (vel (ps ! i))
    \<and> (Vector2Length (vel (wallCollisions (advance (ps ! i)))) \<le> 1000 \<longrightarrow>
         X (vel (integrate ps ! i)) = X (vel (ps ! i)) * 0.995))
 \<and> (5 \<le> Y (pos (advance (ps ! i))) \<and> Y (pos (advance (ps ! i))) \<le> windowHeight - 5 \<longrightarrow>
      Y (pos (integrate ps ! i)) = Y (pos (advance (ps ! i)))
    \<and> Y (vel (wallCollisions (advance (ps ! i)))) = Y (vel (ps ! i))
    \<and> (Vector2Length (vel (wallCollisions (advance (ps ! i)))) \<le> 1000 \<longrightarrow>
         Y (vel (integrate ps ! i)) = Y (vel (ps ! i)) * 0.995))
 \<and> pos (integrate ps ! i) = pos (wallCollisions (advance (ps ! i)))
 \<and> vel (integrate ps ! i)
      = Vector2Scale (vel (clampVelocity (wallCollisions (advance (ps ! i))))) 0.995
 \<and> particles (Step s)
      = integrate (computeForces (Insert (grid s) (particles s))
                     (computeDensities (Insert (grid s) (particles s)) (particles s)))"
proof -
  let ?w = "wallCollisions (advance (ps ! i))"
  have p: "pos (integrate ps ! i) = pos ?w"
    using assms by (simp add: integrate_nth integrate_particle_def)
  have v: "vel (integrate ps ! i) = Vector2Scale (vel (clampVelocity ?w)) 0.995"
    using assms by (simp add: integrate_nth vel_integrate_particle)
  have slow: "vel (integrate ps ! i) = Vector2Scale (vel ?w) 0.995"
    if "Vector2Length (vel ?w) \<le> 1000"
    using that by (simp add: v clampVelocity_slow)
  have sx: "X (vel (integrate ps ! i)) = X (vel ?w) * 0.995"
    if "Vector2Length (vel ?w) \<le> 1000"
    using slow [OF that] by (simp add: Vector2Scale_def)
  have sy: "Y (vel (integrate ps ! i)) = Y (vel ?w) * 0.995"
    if "Vector2Length (vel ?w) \<le> 1000"
    using slow [OF that] by (simp add: Vector2Scale_def)
  have s: "particles (Step s)
      = integrate (computeForces (Insert (grid s) (particles s))
                     (computeDensities (Insert (grid s) (particles s)) (particles s)))"
    by (simp add: Step_def Let_def)
  show ?thesis
    apply (intro conjI impI)
    using sx sy
    by (simp_all add: p v s wallCollisions_X wallCollisions_Y windowWidth_def windowHeight_def)
qed

lemma wall_particle_advance: "X (pos (advance wall_particle)) = 795.05"
  by (simp add: advance_def wall_particle_def Vector2Add_def Vector2Scale_def timeStep_def)

lemma corner_particle_advance:
  "X (pos (advance corner_particle)) = 4.9" "Y (pos (advance corner_particle)) = 395.05"
  by (simp_all add: advance_def corner_particle_def Vector2Add_def Vector2Scale_def
        timeStep_def)

lemma top_particle_advance:
  "X (pos (advance top_particle)) = 400" "Y (pos (advance top_particle)) = 4.9"
  by (simp_all add: advance_def top_particle_def Vector2Add_def Vector2Scale_def timeStep_def)

lemma Vector2Length_le:
  "0 \<le> c \<Longrightarrow> X v * X v + Y v * Y v \<le> c * c \<Longrightarrow> Vector2Length v \<le> c"
  unfolding Vector2Length_def by (rule real_le_lsqrt) (simp_all add: power2_eq_square)

lemma wall_particles_nth:
  "wall_particles ! 0 = wall_particle" "wall_particles ! Suc 0 = corner_particle"
  "wall_particles ! 2 = top_particle" "length wall_particles = 3"
  by (simp_all add: wall_particles_def)

lemma wall_particle_reflected:
  "vel (wallCollisions (advance wall_particle)) = Vector2 (- 50) 0"
  "vel (wallCollisions (advance corner_particle)) = Vector2 50 (- 50)"
  "vel (wallCollisions (advance top_particle)) = Vector2 0 50"
  by (rule Vector2.expand,
      simp add: wallCollisions_X wallCollisions_Y wall_particle_advance corner_particle_advance
        top_particle_advance windowWidth_def windowHeight_def advance_def Vector2Add_def
        Vector2Scale_def timeStep_def wall_particle_def corner_particle_def top_particle_def)+

lemma wall_particle_clamped:
  "pos (wallCollisions (advance wall_particle)) = Vector2 795 50"
  "pos (wallCollisions (advance corner_particle)) = Vector2 5 395"
  "pos (wallCollisions (advance top_particle)) = Vector2 400 5"
  by (rule Vector2.expand,
      simp add: wallCollisions_X wallCollisions_Y wall_particle_advance corner_particle_advance
        top_particle_advance windowWidth_def windowHeight_def advance_def Vector2Add_def
        Vector2Scale_def timeStep_def wall_particle_def corner_particle_def top_particle_def)+

theorem wall_reflection_witness:
  "(0::nat) < length wall_particles \<and> Suc 0 < length wall_particles
   \<and> 2 < length wall_particles
   \<and> X (pos (advance (wall_particles ! 0))) > windowWidth - 5
   \<and> 5 \<le> Y (pos (advance (wall_particles ! 0)))
   \<and> Y (pos (advance (wall_particles ! 0))) \<le> windowHeight - 5
   \<and> Vector2Length (vel (wallCollisions (advance (wall_particles ! 0)))) \<le> 1000
   \<and> pos (integrate wall_particles ! 0) = Vector2 795 50
   \<and> vel (integrate wall_particles ! 0) = Vector2 (- 49.75) 0
   \<and> X (pos (advance (wall_particles ! Suc 0))) < 5
   \<and> Y (pos (advance (wall_particles ! Suc 0))) > windowHeight - 5
   \<and> Vector2Length (vel (wallCollisions (advance (wall_particles ! Suc 0)))) \<le> 1000
   \<and> pos (integrate wall_particles ! Suc 0) = Vector2 5 395
   \<and> vel (integrate wall_particles ! Suc 0) = Vector2 49.75 (- 49.75)
   \<and> Y (pos (advance (wall_particles ! 2))) < 5
   \<and> 5 \<le> X (pos (advance (wall_particles ! 2)))
   \<and> X (pos (advance (wall_particles ! 2))) \<le> windowWidth - 5
   \<and> Vector2Length (vel (wallCollisions (advance (wall_particles ! 2)))) \<le> 1000
   \<and> pos (integrate wall_particles ! 2) = Vector2 400 5
   \<and> vel (integrate wall_particles ! 2) = Vector2 0 49.75"
proof -
  have len: "(0::nat) < length wall_particles" "Suc 0 < length wall_particles"
    "2 < length wall_particles"
    by (simp_all add: wall_particles_nth)
  have wy: "Y (pos (advance wall_particle)) = 50"
    by (simp add: advance_def wall_particle_def Vector2Add_def Vector2Scale_def)
  have speed: "Vector2Length (vel (wallCollisions (advance wall_particle))) \<le> 1000"
    "Vector2Length (vel (wallCollisions (advance corner_particle))) \<le> 1000"
    "Vector2Length (vel (wallCollisions (advance top_particle))) \<le> 1000"
    by (rule Vector2Length_le, simp_all add: wall_particle_reflected)+
  have v: "vel wall_particle = Vector2 100 0" "vel corner_particle = Vector2 (- 100) 100"
    "vel top_particle = Vector2 0 (- 100)"
    by (simp_all add: wall_particle_def corner_particle_def top_particle_def)
  have first: "X (pos (advance wall_particle)) > windowWidth - 5
     \<and> 5 \<le> Y (pos (advance wall_particle)) \<and> Y (pos (advance wall_particle)) \<le> windowHeight - 5
     \<and> pos (integrate wall_particles ! 0) = Vector2 795 50
     \<and> vel (integrate wall_particles ! 0) = Vector2 (- 49.75) 0"
    using wall_reflection [OF len(1)] speed(1) wy v(1)
    by (simp add: wall_particles_nth wall_particle_advance windowWidth_def windowHeight_def
          clampVelocity_slow wall_particle_reflected wall_particle_clamped Vector2Scale_def)
  have second: "X (pos (advance corner_particle)) < 5
     \<and> Y (pos (advance corner_particle)) > windowHeight - 5
     \<and> pos (integrate wall_particles ! Suc 0) = Vector2 5 395
     \<and> vel (integrate wall_particles ! Suc 0) = Vector2 49.75 (- 49.75)"
    using wall_reflection [OF len(2)] speed(2) v(2)
    by (simp add: wall_particles_nth corner_particle_advance windowWidth_def windowHeight_def
          clampVelocity_slow wall_particle_reflected wall_particle_clamped Vector2Scale_def)
  have third: "Y (pos (advance top_particle)) < 5
     \<and> 5 \<le> X (pos (advance top_particle)) \<and> X (pos (advance top_particle)) \<le> windowWidth - 5
     \<and> pos (integrate wall_particles ! 2) = Vector2 400 5
     \<and> vel (integrate wall_particles ! 2) = Vector2 0 49.75"
    using wall_reflection [OF len(3)] speed(3) v(3)
    by (simp add: wall_particles_nth top_particle_advance windowWidth_def windowHeight_def
          clampVelocity_slow wall_particle_reflected wall_particle_clamped Vector2Scale_def)
  from len first second third speed show ?thesis
    by (simp only: wall_particles_nth)
qed

lemma Vector2Length_Normalize:
  "0 < Vector2Length v \<Longrightarrow> Vector2Length (Vector2Normalize v) = 1"
  by (simp add: Vector2Normalize_def Let_def Vector2Length_Scale)

lemma clampVelocity_bound: "Vector2Length (vel (clampVelocity p)) \<le> 1000"
  by (simp add: clampVelocity_def Let_def Vector2Length_Scale Vector2Length_Normalize)

lemma applyDrag_length:
  "Vector2Length (vel (applyDrag p)) = 0.995 * Vector2Length (vel p)"
  by (simp add: applyDrag_def Let_def Vector2Length_Scale)

lemma integrate_particle_bound: "Vector2Length (vel (integrate_particle p)) \<le> 995"
proof -
  have "Vector2Length (vel (clampVelocity (wallCollisions (advance p)))) \<le> 1000"
    by (rule clampVelocity_bound)
  then show ?thesis by (simp add: integrate_particle_def applyDrag_length)
qed

lemma particles_Step:
  "particles (Step s) =
     integrate (computeForces (Insert (grid s) (particles s))
                  (computeDensities (Insert (grid s) (particles s)) (particles s)))"
  by (simp add: Step_def Let_def)

lemma length_particles_Step [simp]: "length (particles (Step s)) = length (particles s)"
  by (simp add: particles_Step integrate_def)

lemma Step_speed_bound:
  "p \<in> set (particles (Step s)) \<Longrightarrow> Vector2Length (vel p) \<le> 995"
  by (auto simp: particles_Step integrate_def integrate_particle_bound)

text \<open>
  C5: after any step, and so after any number of steps, the velocity of every particle
  has length at most \<open>1000\<close>: the clamp rescales a velocity longer than \<open>1000\<close> to length
  \<open>1000\<close> and leaves any other as it is, and the drag that follows multiplies the length by
  \<open>0.995\<close>.
\<close>

theorem speed_cap_invariant:
  assumes "0 < n" and "p \<in> set (particles ((Step ^^ n) s))"
  shows "Vector2Length (vel p) \<le> 1000
       \<and> (Vector2Length (vel q) > 1000 \<longrightarrow> Vector2Length (vel (clampVelocity q)) = 1000)
       \<and> (Vector2Length (vel q) \<le> 1000 \<longrightarrow> clampVelocity q = q)
       \<and> Vector2Length (vel (applyDrag q)) = 0.995 * Vector2Length (vel q)"
proof -
  from assms(1) obtain m where "n = Suc m" by (cases n) auto
  with assms(2) have "p \<in> set (particles (Step ((Step ^^ m) s)))" by simp
  then have "Vector2Length (vel p) \<le> 995" by (rule Step_speed_bound)
  moreover have "Vector2Length (vel (clampVelocity q)) = 1000"
    if "Vector2Length (vel q) > 1000"
    using that
    by (simp add: clampVelocity_def Let_def Vector2Length_Scale Vector2Length_Normalize)
  moreover have "clampVelocity q = q" if "Vector2Length (vel q) \<le> 1000"
    using that by (simp add: clampVelocity_def Let_def)
  ultimately show ?thesis by (simp add: applyDrag_length)
qed

lemma single_cellKey: "cellKey new_grid single_particle = (12, 3)"
  by (simp add: cellKey_def new_grid_def single_particle_def h_def go_int_def)

lemma single_Nearby:
  "pos q = pos single_particle \<Longrightarrow> Nearby (Insert new_grid [single_particle]) q = [0]"
proof -
  have "Nearby (Insert new_grid [single_particle]) single_particle = [0]"
    by (simp add: Nearby_def bucket_Insert single_cellKey)
  then show "pos q = pos single_particle \<Longrightarrow> ?thesis"
    by (simp add: Nearby_cong [of q single_particle])
qed

lemma single_forces:
  "map vel (computeForces (Insert new_grid [single_particle])
              (computeDensities (Insert new_grid [single_particle]) [single_particle]))
     = [Vector2 0 4.5]
 \<and> map pos (computeForces (Insert new_grid [single_particle])
              (computeDensities (Insert new_grid [single_particle]) [single_particle]))
     = [Vector2 200 50]"
  by (simp add: computeForces_def computeDensities_def computeForces_step_def
        computeDensities_step_def Let_def acceleration_def single_Nearby)
     (simp add: force_body_def Vector2Add_def Vector2Scale_def timeStep_def gravity_def
        single_particle_def)

lemma Vector2Length_3000_4000: "Vector2Length (Vector2 3000 4000) = 5000"
  by (simp add: Vector2Length_def sqrt_square_eq [of 5000])

theorem speed_cap_invariant_witness:
  "(0::nat) < 1
   \<and> hd (particles ((Step ^^ 1) single_sim)) \<in> set (particles ((Step ^^ 1) single_sim))
   \<and> Vector2Length (vel (hd (particles ((Step ^^ 1) single_sim)))) \<le> 1000
   \<and> Vector2Length (vel (single_particle\<lparr>vel := Vector2 3000 4000\<rparr>)) > 1000
   \<and> Vector2Length (vel (clampVelocity (single_particle\<lparr>vel := Vector2 3000 4000\<rparr>))) = 1000
   \<and> Vector2Length (vel single_particle) \<le> 1000
   \<and> clampVelocity single_particle = single_particle"
proof -
  have "length (particles ((Step ^^ 1) single_sim)) = 1"
    by (simp add: single_sim_def)
  then have "particles ((Step ^^ 1) single_sim) \<noteq> []"
    by (metis list.size(3) zero_neq_one)
  then have m: "hd (particles ((Step ^^ 1) single_sim))
                \<in> set (particles ((Step ^^ 1) single_sim))"
    by (rule hd_in_set)
  have fast: "Vector2Length (vel (single_particle\<lparr>vel := Vector2 3000 4000\<rparr>)) > 1000"
    by (simp add: Vector2Length_3000_4000)
  have slow: "Vector2Length (vel single_particle) \<le> 1000"
    by (simp add: single_particle_def Vector2Length_def)
  from speed_cap_invariant [OF _ m, of "single_particle\<lparr>vel := Vector2 3000 4000\<rparr>"]
       speed_cap_invariant [OF _ m, of single_particle] m fast slow
  show ?thesis by simp
qed

text \<open>
  C1: a simulation of one particle alone, at \<open>(200, 50)\<close> with velocity \<open>(0, 0)\<close>, under
  gravity \<open>3000\<close>, time step \<open>0.0015\<close> and drag \<open>0.995\<close>: in one step the force pass leaves the
  velocity \<open>(0, 4.5)\<close>, the integration moves the particle to \<open>(200, 50.00675)\<close>, and the
  velocity at the end of the step, after the drag, is \<open>(0, 4.4775)\<close>.
\<close>

theorem single_particle_step:
  "map vel (computeForces (Insert (grid single_sim) (particles single_sim))
              (computeDensities (Insert (grid single_sim) (particles single_sim))
                 (particles single_sim)))
     = [Vector2 0 4.5]
   \<and> map pos (particles (Step single_sim)) = [Vector2 200 50.00675]
   \<and> map vel (particles (Step single_sim)) = [Vector2 0 4.4775]"
proof -
  let ?ps2 = "computeForces (Insert new_grid [single_particle])
                (computeDensities (Insert new_grid [single_particle]) [single_particle])"
  have "length ?ps2 = Suc 0" by simp
  then obtain q where q: "?ps2 = [q]"
    by (metis length_Suc_conv length_0_conv)
  with single_forces have v: "vel q = Vector2 0 4.5" and p: "pos q = Vector2 200 50"
    by simp_all
  have a: "advance q = q\<lparr>pos := Vector2 200 50.00675\<rparr>"
    by (simp add: advance_def v p Vector2Add_def Vector2Scale_def timeStep_def)
  have w: "wallCollisions (advance q) = advance q"
    by (simp add: a wallCollisions_def Let_def windowWidth_def windowHeight_def)
  have "Vector2Length (vel q) = 4.5"
    by (simp add: v Vector2Length_def sqrt_square_eq [of "4.5"])
  then have c: "clampVelocity (advance q) = advance q"
    by (simp add: clampVelocity_def Let_def a)
  have "integrate_particle q = applyDrag (advance q)"
    by (simp only: integrate_particle_def w c)
  then have i: "pos (integrate_particle q) = Vector2 200 50.00675"
               "vel (integrate_particle q) = Vector2 0 4.4775"
    by (simp_all add: applyDrag_def Let_def a v Vector2Scale_def)
  show ?thesis
    using single_forces i
    by (simp add: particles_Step single_sim_def q integrate_def)
qed

end
